theory Spec2Isabelle
  imports Complex_Main "HOL-Library.Log_Nat"
begin

section \<open>JavaScript numbers\<close>

text \<open>
  The calculator computes with the JavaScript type \<open>number\<close>: IEEE 754 binary64 with
  round-to-nearest, ties to even. A finite value is carried as the exact rational it denotes
  (\<open>Fin 0\<close> is the positive zero); the negative zero, the two infinities and NaN are
  constructors of their own. Every arithmetic operation computes the exact rational result
  and rounds it with \<open>round64\<close>, so overflow to an infinity and underflow to a zero are
  part of the model.
\<close>

datatype jsnum = NaN | PInf | NInf | NZero | Fin rat

fun is_nan :: "jsnum \<Rightarrow> bool" where
  "is_nan NaN = True"
| "is_nan _ = False"

fun is_inf :: "jsnum \<Rightarrow> bool" where
  "is_inf PInf = True"
| "is_inf NInf = True"
| "is_inf _ = False"

fun is_zero :: "jsnum \<Rightarrow> bool" where
  "is_zero NZero = True"
| "is_zero (Fin q) = (q = 0)"
| "is_zero _ = False"

fun is_finite :: "jsnum \<Rightarrow> bool" where
  "is_finite NZero = True"
| "is_finite (Fin q) = True"
| "is_finite _ = False"

text \<open>The sign bit; NaN has none that any operation here reads.\<close>

fun sign_bit :: "jsnum \<Rightarrow> bool" where
  "sign_bit NInf = True"
| "sign_bit NZero = True"
| "sign_bit (Fin q) = (q < 0)"
| "sign_bit _ = False"

text \<open>The rational value of a finite number (both zeros are 0).\<close>

fun val :: "jsnum \<Rightarrow> rat" where
  "val (Fin q) = q"
| "val _ = 0"

definition signed_inf :: "bool \<Rightarrow> jsnum" where
  "signed_inf s = (if s then NInf else PInf)"

definition signed_zero :: "bool \<Rightarrow> jsnum" where
  "signed_zero s = (if s then NZero else Fin 0)"

subsection \<open>Rounding an exact result to binary64\<close>

text \<open>\<open>ilog2 a\<close> is the binary exponent of a positive rational: \<open>2 ^ e \<le> a < 2 ^ (e + 1)\<close>.\<close>

definition ilog2 :: "rat \<Rightarrow> int" where
  "ilog2 a = (let (p, d) = quotient_of a; k = bitlen p - bitlen d
              in if 2 powi k \<le> a then k else k - 1)"

definition round_half_even :: "rat \<Rightarrow> int" where
  "round_half_even x = (let f = \<lfloor>x\<rfloor>; d = x - of_int f
     in if d < 1 / 2 then f else if 1 / 2 < d then f + 1 else if even f then f else f + 1)"

text \<open>
  The exponent of the unit in the last place of a positive magnitude: 52 fraction bits
  below the leading bit, and never below the subnormal spacing \<open>2 ^ - 1074\<close>.
\<close>

definition ulp_exp :: "rat \<Rightarrow> int" where
  "ulp_exp a = max (ilog2 a) (- 1022) - 52"

definition round_mag :: "rat \<Rightarrow> rat" where
  "round_mag a = of_int (round_half_even (a / 2 powi ulp_exp a)) * 2 powi ulp_exp a"

text \<open>
  The number value of an exact real: the nearest binary64 value, \<open>2 ^ 1024\<close> standing for
  the infinity; a result that rounds to zero keeps the sign of the exact value.
\<close>

definition round64 :: "rat \<Rightarrow> jsnum" where
  "round64 q =
     (if q = 0 then Fin 0
      else let r = round_mag \<bar>q\<bar>
           in if 2 ^ 1024 \<le> r then signed_inf (q < 0)
              else if r = 0 then signed_zero (q < 0)
              else Fin (if q < 0 then - r else r))"

subsection \<open>Arithmetic, comparison, \<open>Math.min\<close>, \<open>Math.max\<close>, \<open>Math.round\<close>\<close>

definition js_neg :: "jsnum \<Rightarrow> jsnum" where
  "js_neg x = (case x of NaN \<Rightarrow> NaN | PInf \<Rightarrow> NInf | NInf \<Rightarrow> PInf | NZero \<Rightarrow> Fin 0
                | Fin q \<Rightarrow> (if q = 0 then NZero else Fin (- q)))"

definition js_add :: "jsnum \<Rightarrow> jsnum \<Rightarrow> jsnum" where
  "js_add x y =
     (if is_nan x \<or> is_nan y then NaN
      else if is_inf x \<and> is_inf y then (if x = y then x else NaN)
      else if is_inf x then x
      else if is_inf y then y
      else if is_zero x \<and> is_zero y then signed_zero (sign_bit x \<and> sign_bit y)
      else round64 (val x + val y))"

definition js_sub :: "jsnum \<Rightarrow> jsnum \<Rightarrow> jsnum" where
  "js_sub x y = js_add x (js_neg y)"

definition js_mul :: "jsnum \<Rightarrow> jsnum \<Rightarrow> jsnum" where
  "js_mul x y =
     (if is_nan x \<or> is_nan y then NaN
      else if (is_inf x \<and> is_zero y) \<or> (is_zero x \<and> is_inf y) then NaN
      else if is_inf x \<or> is_inf y then signed_inf (sign_bit x \<noteq> sign_bit y)
      else if is_zero x \<or> is_zero y then signed_zero (sign_bit x \<noteq> sign_bit y)
      else round64 (val x * val y))"

definition js_div :: "jsnum \<Rightarrow> jsnum \<Rightarrow> jsnum" where
  "js_div x y =
     (if is_nan x \<or> is_nan y then NaN
      else if (is_inf x \<and> is_inf y) \<or> (is_zero x \<and> is_zero y) then NaN
      else if is_inf x \<or> is_zero y then signed_inf (sign_bit x \<noteq> sign_bit y)
      else if is_inf y \<or> is_zero x then signed_zero (sign_bit x \<noteq> sign_bit y)
      else round64 (val x / val y))"

text \<open>\<open>x < y\<close> and \<open>x <= y\<close>: false as soon as one side is NaN; the two zeros are equal.\<close>

fun js_lt :: "jsnum \<Rightarrow> jsnum \<Rightarrow> bool" where
  "js_lt NaN _ = False"
| "js_lt _ NaN = False"
| "js_lt PInf _ = False"
| "js_lt _ PInf = True"
| "js_lt _ NInf = False"
| "js_lt NInf _ = True"
| "js_lt x y = (val x < val y)"

fun js_le :: "jsnum \<Rightarrow> jsnum \<Rightarrow> bool" where
  "js_le NaN _ = False"
| "js_le _ NaN = False"
| "js_le _ PInf = True"
| "js_le PInf _ = False"
| "js_le NInf _ = True"
| "js_le _ NInf = False"
| "js_le x y = (val x \<le> val y)"

text \<open>\<open>Math.max\<close> and \<open>Math.min\<close> of two arguments: NaN if either is; \<open>+0\<close> is larger than \<open>-0\<close>.\<close>

definition js_max :: "jsnum \<Rightarrow> jsnum \<Rightarrow> jsnum" where
  "js_max x y =
     (if is_nan x \<or> is_nan y then NaN
      else if is_zero x \<and> is_zero y then signed_zero (sign_bit x \<and> sign_bit y)
      else if js_lt x y then y else x)"

definition js_min :: "jsnum \<Rightarrow> jsnum \<Rightarrow> jsnum" where
  "js_min x y =
     (if is_nan x \<or> is_nan y then NaN
      else if is_zero x \<and> is_zero y then signed_zero (sign_bit x \<or> sign_bit y)
      else if js_lt y x then y else x)"

text \<open>
  \<open>Math.round\<close>: the nearest integer, a tie going towards \<open>+\<infinity>\<close>; NaN, the infinities and
  the zeros are returned as they are, and a value in \<open>[-0.5, 0)\<close> gives \<open>-0\<close>. The integer
  nearest to a binary64 value is itself one, so nothing is rounded a second time.
\<close>

definition js_round :: "jsnum \<Rightarrow> jsnum" where
  "js_round x = (case x of Fin q \<Rightarrow>
       (if q < 0 \<and> - (1 / 2) \<le> q then NZero else Fin (of_int \<lfloor>q + 1 / 2\<rfloor>))
     | _ \<Rightarrow> x)"

text \<open>\<open>ToBoolean\<close> of a number, as the operator \<open>||\<close> applies it: NaN and the zeros are false.\<close>

definition truthy :: "jsnum \<Rightarrow> bool" where
  "truthy x = (\<not> is_nan x \<and> \<not> is_zero x)"

definition js_or :: "jsnum \<Rightarrow> jsnum \<Rightarrow> jsnum" where
  "js_or x y = (if truthy x then x else y)"

section \<open>The calculator\<close>

record CalculatorInputs =
  current_maintenance_cost :: jsnum
  projected_maintenance_cost :: jsnum
  current_downtime_hours :: jsnum
  downtime_cost_per_hour :: jsnum
  downtime_reduction_percent :: jsnum
  current_deployments_per_year :: jsnum
  deployment_increase_percent :: jsnum
  modernization_cost :: jsnum
  productivity_gain_percent :: jsnum
  team_salary_cost :: jsnum

record ROIResults =
  roi_percentage :: jsnum
  payback_months :: jsnum
  net_benefit_3_years :: jsnum
  annual_savings :: jsnum

text \<open>
  \<open>computeROI\<close> is the body of the source function \<open>calculateROI\<close> as a function of the
  \<open>inputs\<close> it reads: one \<open>let\<close> for each \<open>const\<close>, returning the record that is handed to
  \<open>setResults\<close>.
\<close>

definition computeROI :: "CalculatorInputs \<Rightarrow> ROIResults" where
  "computeROI inputs =
     (let maintenance_savings =
            js_sub (current_maintenance_cost inputs) (projected_maintenance_cost inputs);
          current_annual_downtime_cost =
            js_mul (js_mul (current_downtime_hours inputs) (Fin 12)) (downtime_cost_per_hour inputs);
          downtime_savings =
            js_mul current_annual_downtime_cost (js_div (downtime_reduction_percent inputs) (Fin 100));
          productivity_value =
            js_mul (team_salary_cost inputs) (js_div (productivity_gain_percent inputs) (Fin 100));
          deployment_efficiency_gain =
            js_min (Fin 50000)
              (js_mul (js_mul (current_deployments_per_year inputs) (Fin 1000))
                 (js_div (deployment_increase_percent inputs) (Fin 100)));
          total_annual_savings =
            js_add (js_add (js_add maintenance_savings downtime_savings) productivity_value)
              deployment_efficiency_gain;
          three_year_benefits = js_mul total_annual_savings (Fin 3);
          net_benefit = js_sub three_year_benefits (modernization_cost inputs);
          roi = js_mul (js_div net_benefit (modernization_cost inputs)) (Fin 100);
          payback_months_local =
            js_max (Fin 1)
              (js_round (js_mul (js_div (modernization_cost inputs) total_annual_savings) (Fin 12)))
      in \<lparr> roi_percentage = js_max (Fin 50) (js_round roi),
           payback_months = js_min (Fin 18) payback_months_local,
           net_benefit_3_years = net_benefit,
           annual_savings = total_annual_savings \<rparr>)"

text \<open>
  The local constants of \<open>calculateROI\<close>, each as a function of the inputs;
  \<open>payback_ratio\<close> names the quotient inside \<open>payback_months\<close>.
\<close>

definition maintenance_savings :: "CalculatorInputs \<Rightarrow> jsnum" where
  "maintenance_savings i = js_sub (current_maintenance_cost i) (projected_maintenance_cost i)"

definition current_annual_downtime_cost :: "CalculatorInputs \<Rightarrow> jsnum" where
  "current_annual_downtime_cost i =
     js_mul (js_mul (current_downtime_hours i) (Fin 12)) (downtime_cost_per_hour i)"

definition downtime_savings :: "CalculatorInputs \<Rightarrow> jsnum" where
  "downtime_savings i =
     js_mul (current_annual_downtime_cost i) (js_div (downtime_reduction_percent i) (Fin 100))"

definition productivity_value :: "CalculatorInputs \<Rightarrow> jsnum" where
  "productivity_value i =
     js_mul (team_salary_cost i) (js_div (productivity_gain_percent i) (Fin 100))"

definition deployment_efficiency_gain :: "CalculatorInputs \<Rightarrow> jsnum" where
  "deployment_efficiency_gain i =
     js_min (Fin 50000)
       (js_mul (js_mul (current_deployments_per_year i) (Fin 1000))
          (js_div (deployment_increase_percent i) (Fin 100)))"

definition total_annual_savings :: "CalculatorInputs \<Rightarrow> jsnum" where
  "total_annual_savings i =
     js_add (js_add (js_add (maintenance_savings i) (downtime_savings i)) (productivity_value i))
       (deployment_efficiency_gain i)"

definition three_year_benefits :: "CalculatorInputs \<Rightarrow> jsnum" where
  "three_year_benefits i = js_mul (total_annual_savings i) (Fin 3)"

definition net_benefit :: "CalculatorInputs \<Rightarrow> jsnum" where
  "net_benefit i = js_sub (three_year_benefits i) (modernization_cost i)"

definition roi :: "CalculatorInputs \<Rightarrow> jsnum" where
  "roi i = js_mul (js_div (net_benefit i) (modernization_cost i)) (Fin 100)"

definition payback_ratio :: "CalculatorInputs \<Rightarrow> jsnum" where
  "payback_ratio i = js_div (modernization_cost i) (total_annual_savings i)"

definition payback_months_local :: "CalculatorInputs \<Rightarrow> jsnum" where
  "payback_months_local i = js_max (Fin 1) (js_round (js_mul (payback_ratio i) (Fin 12)))"

subsection \<open>The component state and its handlers\<close>

record component_state =
  inputs :: CalculatorInputs
  results :: ROIResults

text \<open>The two \<open>useState\<close> initial values.\<close>

definition default_inputs :: CalculatorInputs where
  "default_inputs =
     \<lparr> current_maintenance_cost = Fin 250000,
       projected_maintenance_cost = Fin 150000,
       current_downtime_hours = Fin 20,
       downtime_cost_per_hour = Fin 5000,
       downtime_reduction_percent = Fin 60,
       current_deployments_per_year = Fin 12,
       deployment_increase_percent = Fin 200,
       modernization_cost = Fin 500000,
       productivity_gain_percent = Fin 25,
       team_salary_cost = Fin 800000 \<rparr>"

definition initial_state :: component_state where
  "initial_state =
     \<lparr> inputs = default_inputs,
       results = \<lparr> roi_percentage = Fin 0, payback_months = Fin 0,
                   net_benefit_3_years = Fin 0, annual_savings = Fin 0 \<rparr> \<rparr>"

text \<open>\<open>calculateROI\<close> reads \<open>inputs\<close> from the state and replaces \<open>results\<close>.\<close>

definition calculateROI :: "component_state \<Rightarrow> component_state" where
  "calculateROI s = s\<lparr>results := computeROI (inputs s)\<rparr>"

text \<open>\<open>keyof CalculatorInputs\<close>, and the computed-key update \<open>{ ...prev, [field]: numValue }\<close>.\<close>

datatype field_name =
    Current_maintenance_cost | Projected_maintenance_cost | Current_downtime_hours
  | Downtime_cost_per_hour | Downtime_reduction_percent | Current_deployments_per_year
  | Deployment_increase_percent | Modernization_cost | Productivity_gain_percent
  | Team_salary_cost

fun set_field :: "field_name \<Rightarrow> jsnum \<Rightarrow> CalculatorInputs \<Rightarrow> CalculatorInputs" where
  "set_field Current_maintenance_cost v i = i\<lparr>current_maintenance_cost := v\<rparr>"
| "set_field Projected_maintenance_cost v i = i\<lparr>projected_maintenance_cost := v\<rparr>"
| "set_field Current_downtime_hours v i = i\<lparr>current_downtime_hours := v\<rparr>"
| "set_field Downtime_cost_per_hour v i = i\<lparr>downtime_cost_per_hour := v\<rparr>"
| "set_field Downtime_reduction_percent v i = i\<lparr>downtime_reduction_percent := v\<rparr>"
| "set_field Current_deployments_per_year v i = i\<lparr>current_deployments_per_year := v\<rparr>"
| "set_field Deployment_increase_percent v i = i\<lparr>deployment_increase_percent := v\<rparr>"
| "set_field Modernization_cost v i = i\<lparr>modernization_cost := v\<rparr>"
| "set_field Productivity_gain_percent v i = i\<lparr>productivity_gain_percent := v\<rparr>"
| "set_field Team_salary_cost v i = i\<lparr>team_salary_cost := v\<rparr>"

fun get_field :: "field_name \<Rightarrow> CalculatorInputs \<Rightarrow> jsnum" where
  "get_field Current_maintenance_cost i = current_maintenance_cost i"
| "get_field Projected_maintenance_cost i = projected_maintenance_cost i"
| "get_field Current_downtime_hours i = current_downtime_hours i"
| "get_field Downtime_cost_per_hour i = downtime_cost_per_hour i"
| "get_field Downtime_reduction_percent i = downtime_reduction_percent i"
| "get_field Current_deployments_per_year i = current_deployments_per_year i"
| "get_field Deployment_increase_percent i = deployment_increase_percent i"
| "get_field Modernization_cost i = modernization_cost i"
| "get_field Productivity_gain_percent i = productivity_gain_percent i"
| "get_field Team_salary_cost i = team_salary_cost i"

subsection \<open>\<open>parseFloat\<close>\<close>

text \<open>
  The built-in \<open>parseFloat\<close>: leading white space is dropped, the longest prefix that is a
  decimal literal (a sign, then \<open>Infinity\<close> or digits with an optional fraction and an
  optional exponent) is read, anything after it is ignored, and NaN is returned when there
  is no such prefix. Characters are bytes, so only the ASCII white space is recognised.
\<close>

definition is_white_space :: "char \<Rightarrow> bool" where
  "is_white_space c = (c \<in> set [CHR 0x09, CHR 0x0A, CHR 0x0B, CHR 0x0C, CHR 0x0D, CHR 0x20])"

definition is_digit :: "char \<Rightarrow> bool" where
  "is_digit c = (48 \<le> (of_char c :: nat) \<and> (of_char c :: nat) \<le> 57)"

definition digit_val :: "char \<Rightarrow> nat" where
  "digit_val c = of_char c - 48"

fun digits_val :: "nat \<Rightarrow> string \<Rightarrow> nat" where
  "digits_val acc [] = acc"
| "digits_val acc (c # cs) = digits_val (10 * acc + digit_val c) cs"

text \<open>Splits off a leading sign: whether it was \<open>-\<close>, and the rest.\<close>

fun take_sign :: "string \<Rightarrow> bool \<times> string" where
  "take_sign [] = (False, [])"
| "take_sign (c # r) =
     (if c = CHR ''-'' then (True, r) else if c = CHR ''+'' then (False, r) else (False, c # r))"

text \<open>The value of an exponent part at the head of a string, 0 when there is none.\<close>

fun exponent_part :: "string \<Rightarrow> int" where
  "exponent_part [] = 0"
| "exponent_part (c # r) =
     (if c = CHR ''e'' \<or> c = CHR ''E'' then
        (let (neg, r') = take_sign r; ds = takeWhile is_digit r'
         in if ds = [] then 0
            else if neg then - int (digits_val 0 ds) else int (digits_val 0 ds))
      else 0)"

definition starts_with :: "string \<Rightarrow> string \<Rightarrow> bool" where
  "starts_with p s = (take (length p) s = p)"

definition parseFloat :: "string \<Rightarrow> jsnum" where
  "parseFloat s =
     (let (neg, u) = take_sign (dropWhile is_white_space s)
      in if starts_with ''Infinity'' u then signed_inf neg
         else
           let ip = takeWhile is_digit u;
               r1 = dropWhile is_digit u;
               has_dot = (r1 \<noteq> [] \<and> hd r1 = CHR ''.'');
               fp = (if has_dot then takeWhile is_digit (tl r1) else []);
               r2 = (if has_dot then dropWhile is_digit (tl r1) else r1)
           in if ip = [] \<and> fp = [] then NaN
              else
                let mv = of_nat (digits_val 0 (ip @ fp)) *
                           10 powi (exponent_part r2 - int (length fp))
                in if mv = 0 then signed_zero neg
                   else round64 (if neg then - mv else mv))"

text \<open>
  \<open>handleInputChange\<close>: \<open>parseFloat(value) || 0\<close> is stored in the named field. The effect
  registered on \<open>[inputs]\<close> then runs \<open>calculateROI\<close>; \<open>on_input_change\<close> is the two together,
  and \<open>mounted_state\<close> is the state after the effect has run for the first render.
\<close>

definition handleInputChange :: "field_name \<Rightarrow> string \<Rightarrow> component_state \<Rightarrow> component_state" where
  "handleInputChange field v s =
     (let numValue = js_or (parseFloat v) (Fin 0)
      in s\<lparr>inputs := set_field field numValue (inputs s)\<rparr>)"

definition on_input_change :: "field_name \<Rightarrow> string \<Rightarrow> component_state \<Rightarrow> component_state" where
  "on_input_change field v s = calculateROI (handleInputChange field v s)"

definition mounted_state :: component_state where
  "mounted_state = calculateROI initial_state"

subsection \<open>Input records\<close>

text \<open>
  The fields are of type \<open>number\<close>, and every one is bound to an \<open>input\<close> element of type
  \<open>number\<close>, whose value is the text of a finite number (or empty): the records the
  component holds have finite fields.
\<close>

definition finite_inputs :: "CalculatorInputs \<Rightarrow> bool" where
  "finite_inputs i =
     (is_finite (current_maintenance_cost i) \<and> is_finite (projected_maintenance_cost i)
      \<and> is_finite (current_downtime_hours i) \<and> is_finite (downtime_cost_per_hour i)
      \<and> is_finite (downtime_reduction_percent i) \<and> is_finite (current_deployments_per_year i)
      \<and> is_finite (deployment_increase_percent i) \<and> is_finite (modernization_cost i)
      \<and> is_finite (productivity_gain_percent i) \<and> is_finite (team_salary_cost i))"

text \<open>Valid positive inputs: every field a finite number greater than 0.\<close>

definition valid_positive :: "CalculatorInputs \<Rightarrow> bool" where
  "valid_positive i =
     (finite_inputs i
      \<and> js_lt (Fin 0) (current_maintenance_cost i) \<and> js_lt (Fin 0) (projected_maintenance_cost i)
      \<and> js_lt (Fin 0) (current_downtime_hours i) \<and> js_lt (Fin 0) (downtime_cost_per_hour i)
      \<and> js_lt (Fin 0) (downtime_reduction_percent i) \<and> js_lt (Fin 0) (current_deployments_per_year i)
      \<and> js_lt (Fin 0) (deployment_increase_percent i) \<and> js_lt (Fin 0) (modernization_cost i)
      \<and> js_lt (Fin 0) (productivity_gain_percent i) \<and> js_lt (Fin 0) (team_salary_cost i))"

text \<open>
  Two sessions at the form. In the first, \<open>1e308\<close> is typed into the downtime-hours field
  and \<open>0\<close> into the downtime-reduction field; in the second, \<open>0\<close> is typed into every field.
\<close>

definition overflow_state :: component_state where
  "overflow_state =
     on_input_change Downtime_reduction_percent ''0''
       (on_input_change Current_downtime_hours ''1e308'' mounted_state)"

definition all_fields :: "field_name list" where
  "all_fields =
     [Current_maintenance_cost, Projected_maintenance_cost, Current_downtime_hours,
      Downtime_cost_per_hour, Downtime_reduction_percent, Current_deployments_per_year,
      Deployment_increase_percent, Modernization_cost, Productivity_gain_percent,
      Team_salary_cost]"

definition zero_state :: component_state where
  "zero_state = fold (\<lambda>f. on_input_change f ''0'') all_fields mounted_state"

section \<open>Properties of the rounding\<close>

lemma ilog2_bounds:
  assumes "0 < a"
  shows "2 powi ilog2 a \<le> a" and "a < 2 powi (ilog2 a + 1)"
proof -
  obtain p d where pd: "quotient_of a = (p, d)" by (cases "quotient_of a")
  have d: "0 < d" using quotient_of_denom_pos[OF pd] .
  have a: "a = of_int p / of_int d" using quotient_of_div[OF pd] .
  have p: "0 < p" using assms d a by (simp add: zero_less_divide_iff)
  define bp where "bp = bitlen p"
  define bd where "bd = bitlen d"
  have bp1: "1 \<le> bp" using p by (auto simp: bp_def bitlen_alt_def)
  have bd1: "1 \<le> bd" using d by (auto simp: bd_def bitlen_alt_def)
  have P: "(2::int) ^ nat (bp - 1) \<le> p" "p < 2 ^ nat bp"
    using bitlen_bounds[OF p] by (auto simp: bp_def)
  have D: "(2::int) ^ nat (bd - 1) \<le> d" "d < 2 ^ nat bd"
    using bitlen_bounds[OF d] by (auto simp: bd_def)
  have Pl: "(2::rat) powi (bp - 1) \<le> of_int p"
  proof -
    have "(of_int ((2::int) ^ nat (bp - 1)) :: rat) \<le> of_int p" using P(1) by (simp only: of_int_le_iff)
    then show ?thesis using bp1 by (simp add: power_int_def)
  qed
  have Pu: "(of_int p :: rat) < 2 powi bp"
  proof -
    have "(of_int p :: rat) < of_int ((2::int) ^ nat bp)" using P(2) by (simp only: of_int_less_iff)
    then show ?thesis using bp1 by (simp add: power_int_def)
  qed
  have Dl: "(2::rat) powi (bd - 1) \<le> of_int d"
  proof -
    have "(of_int ((2::int) ^ nat (bd - 1)) :: rat) \<le> of_int d" using D(1) by (simp only: of_int_le_iff)
    then show ?thesis using bd1 by (simp add: power_int_def)
  qed
  have Du: "(of_int d :: rat) < 2 powi bd"
  proof -
    have "(of_int d :: rat) < of_int ((2::int) ^ nat bd)" using D(2) by (simp only: of_int_less_iff)
    then show ?thesis using bd1 by (simp add: power_int_def)
  qed
  have pos: "\<And>k. (0::rat) < 2 powi k" by simp
  have lo: "2 powi (bp - bd - 1) < a"
  proof -
    have "(2::rat) powi (bp - bd - 1) = 2 powi (bp - 1) / 2 powi bd"
      by (simp add: power_int_diff)
    also have "\<dots> < of_int p / of_int d"
      by (rule frac_less2[OF pos Pl _ Du]) (use d in simp)
    finally show ?thesis by (simp add: a)
  qed
  have hi: "a < 2 powi (bp - bd + 1)"
  proof -
    have "of_int p / of_int d < (2::rat) powi bp / 2 powi (bd - 1)"
      by (rule frac_less[OF _ Pu pos Dl]) (use p in simp)
    also have "\<dots> = 2 powi (bp - bd + 1)"
      by (simp add: power_int_diff power_int_add)
    finally show ?thesis by (simp add: a)
  qed
  have e: "ilog2 a = (if 2 powi (bp - bd) \<le> a then bp - bd else bp - bd - 1)"
    by (simp add: ilog2_def pd bp_def bd_def)
  show "2 powi ilog2 a \<le> a" using lo by (simp add: e)
  show "a < 2 powi (ilog2 a + 1)" using hi by (simp add: e)
qed

lemma ilog2_mono:
  assumes "0 < a" "a \<le> b"
  shows "ilog2 a \<le> ilog2 b"
proof (rule ccontr)
  assume "\<not> ilog2 a \<le> ilog2 b"
  then have "ilog2 b + 1 \<le> ilog2 a" by simp
  then have "(2::rat) powi (ilog2 b + 1) \<le> 2 powi ilog2 a"
    by (intro power_int_increasing) simp_all
  moreover have "b < 2 powi (ilog2 b + 1)" using assms by (intro ilog2_bounds) simp
  moreover have "2 powi ilog2 a \<le> a" using assms by (intro ilog2_bounds)
  ultimately show False using assms by linarith
qed

lemma round_half_even_floor: "\<lfloor>x\<rfloor> \<le> round_half_even x" "round_half_even x \<le> \<lfloor>x\<rfloor> + 1"
  by (simp_all add: round_half_even_def Let_def)

lemma round_half_even_mono:
  assumes "x \<le> y"
  shows "round_half_even x \<le> round_half_even y"
proof (cases "\<lfloor>x\<rfloor> = \<lfloor>y\<rfloor>")
  case True
  with assms show ?thesis
    by (auto simp: round_half_even_def Let_def)
next
  case False
  with assms have "\<lfloor>x\<rfloor> + 1 \<le> \<lfloor>y\<rfloor>" using floor_mono[OF assms] by linarith
  with round_half_even_floor(2)[of x] round_half_even_floor(1)[of y] show ?thesis by linarith
qed

lemma round_half_even_int [simp]: "round_half_even (of_int n) = n"
  by (simp add: round_half_even_def)

lemma round_half_even_nonneg: "0 \<le> x \<Longrightarrow> 0 \<le> round_half_even x"
  using round_half_even_mono[of 0 x] round_half_even_int[of 0] by simp

lemma round_mag_nonneg: "0 \<le> a \<Longrightarrow> 0 \<le> round_mag a"
  by (simp add: round_mag_def round_half_even_nonneg)

lemma powi_quot: "(2::rat) powi m / 2 powi n = 2 powi (m - n)"
  by (simp add: power_int_diff)

lemma powi_prod: "(2::rat) powi m * 2 powi n = 2 powi (m + n)"
  by (simp add: power_int_add)

lemma powi_53: "(2::rat) powi 53 = of_int (2 ^ 53)" and powi_52: "(2::rat) powi 52 = of_int (2 ^ 52)"
  by (simp_all add: power_int_def)

text \<open>Within one binade the rounded magnitude stays between the two powers of two.\<close>

lemma round_mag_upper:
  assumes "0 < a" and e: "e = max (ilog2 a) (- 1022)"
  shows "round_mag a \<le> 2 powi (e + 1)"
proof -
  have u: "ulp_exp a = e - 52" by (simp add: ulp_exp_def e)
  have "a < 2 powi (ilog2 a + 1)" using assms by (intro ilog2_bounds)
  also have "\<dots> \<le> 2 powi (e + 1)" by (intro power_int_increasing) (simp_all add: e)
  finally have "a / 2 powi (e - 52) \<le> 2 powi (e + 1) / 2 powi (e - 52)"
    by (simp add: divide_right_mono)
  also have "\<dots> = of_int (2 ^ 53)"
  proof -
    have "e + 1 - (e - 52) = 53" by simp
    then show ?thesis unfolding powi_quot powi_53[symmetric] by (simp only:)
  qed
  finally have "round_half_even (a / 2 powi (e - 52)) \<le> 2 ^ 53"
    using round_half_even_mono round_half_even_int by metis
  then have "(of_int (round_half_even (a / 2 powi (e - 52))) :: rat) \<le> of_int (2 ^ 53)"
    by (simp only: of_int_le_iff)
  then have "round_mag a \<le> of_int (2 ^ 53) * 2 powi (e - 52)"
    by (simp add: round_mag_def u mult_right_mono)
  also have "\<dots> = 2 powi (e + 1)"
  proof -
    have "53 + (e - 52) = e + 1" by simp
    then show ?thesis unfolding powi_53[symmetric] powi_prod by (simp only:)
  qed
  finally show "round_mag a \<le> 2 powi (e + 1)" .
qed

lemma round_mag_lower:
  assumes "0 < a" and that: "- 1022 \<le> ilog2 a"
  shows "2 powi ilog2 a \<le> round_mag a"
proof -
  define e where "e = ilog2 a"
  have u: "ulp_exp a = e - 52" using that by (simp add: ulp_exp_def e_def)
  have "2 powi e \<le> a" unfolding e_def using assms by (intro ilog2_bounds)
  then have "2 powi e / 2 powi (e - 52) \<le> a / 2 powi (e - 52)"
    by (simp add: divide_right_mono)
  moreover have "2 powi e / 2 powi (e - 52) = (of_int (2 ^ 52) :: rat)"
  proof -
    have "e - (e - 52) = 52" by simp
    then show ?thesis unfolding powi_quot powi_52[symmetric] by (simp only:)
  qed
  ultimately have "2 ^ 52 \<le> round_half_even (a / 2 powi (e - 52))"
    using round_half_even_mono round_half_even_int by metis
  then have "(of_int (2 ^ 52) :: rat) \<le> of_int (round_half_even (a / 2 powi (e - 52)))"
    by (simp only: of_int_le_iff)
  then have "of_int (2 ^ 52) * 2 powi (e - 52) \<le> round_mag a"
    by (simp add: round_mag_def u mult_right_mono)
  moreover have "(of_int (2 ^ 52) :: rat) * 2 powi (e - 52) = 2 powi e"
  proof -
    have "52 + (e - 52) = e" by simp
    then show ?thesis unfolding powi_52[symmetric] powi_prod by (simp only:)
  qed
  ultimately show ?thesis by (simp add: e_def)
qed

lemma round_mag_mono:
  assumes "0 < a" "a \<le> b"
  shows "round_mag a \<le> round_mag b"
proof (cases "ulp_exp a = ulp_exp b")
  case True
  have "a / 2 powi ulp_exp b \<le> b / 2 powi ulp_exp b"
    using assms by (simp add: divide_right_mono)
  then have "round_half_even (a / 2 powi ulp_exp b) \<le> round_half_even (b / 2 powi ulp_exp b)"
    by (rule round_half_even_mono)
  then have "(of_int (round_half_even (a / 2 powi ulp_exp b)) :: rat)
               \<le> of_int (round_half_even (b / 2 powi ulp_exp b))"
    by (simp only: of_int_le_iff)
  then show ?thesis by (simp add: round_mag_def True mult_right_mono)
next
  case False
  have b: "0 < b" using assms by simp
  have le: "ilog2 a \<le> ilog2 b" using assms by (rule ilog2_mono)
  define e where "e = max (ilog2 a) (- 1022)"
  from False le have lt: "e < ilog2 b" and big: "- 1022 \<le> ilog2 b"
    by (auto simp: ulp_exp_def e_def max_def split: if_splits)
  have "round_mag a \<le> 2 powi (e + 1)" using assms(1) e_def by (rule round_mag_upper)
  also have "\<dots> \<le> 2 powi ilog2 b" using lt by (intro power_int_increasing) simp_all
  also have "\<dots> \<le> round_mag b" using b big by (rule round_mag_lower)
  finally show ?thesis .
qed

lemma round64_not_nan [simp]: "\<not> is_nan (round64 q)"
  by (simp add: round64_def Let_def signed_inf_def signed_zero_def)

lemma round64_neq_NaN [simp]: "round64 q \<noteq> NaN"
  using round64_not_nan[of q] by (metis is_nan.simps(1))

lemma round64_0 [simp]: "round64 0 = Fin 0"
  by (simp add: round64_def)

lemma round64_pos: "0 < q \<Longrightarrow> round64 q = PInf \<or> (\<exists>r. round64 q = Fin r \<and> 0 \<le> r)"
  using round_mag_nonneg[of q]
  by (auto simp: round64_def Let_def signed_inf_def signed_zero_def)

lemma round64_neg: "q < 0 \<Longrightarrow> round64 q = NInf \<or> round64 q = NZero \<or> (\<exists>r. round64 q = Fin r \<and> r < 0)"
  using round_mag_nonneg[of "- q"]
  by (auto simp: round64_def Let_def signed_inf_def signed_zero_def)

lemma round64_pos_mono:
  assumes "0 < p" "p \<le> q"
  shows "js_le (round64 p) (round64 q)"
proof -
  have "round_mag p \<le> round_mag q" using assms by (rule round_mag_mono)
  moreover have "0 \<le> round_mag p" using assms by (simp add: round_mag_nonneg)
  ultimately show ?thesis using assms
    by (auto simp: round64_def Let_def signed_inf_def signed_zero_def)
qed

lemma round64_neg_mono:
  assumes "q < 0" "p \<le> q"
  shows "js_le (round64 p) (round64 q)"
proof -
  have "round_mag (- q) \<le> round_mag (- p)" using assms by (intro round_mag_mono) simp_all
  moreover have "0 \<le> round_mag (- q)" using assms by (simp add: round_mag_nonneg)
  ultimately show ?thesis using assms
    by (auto simp: round64_def Let_def signed_inf_def signed_zero_def)
qed

lemma round64_mono:
  assumes "p \<le> q"
  shows "js_le (round64 p) (round64 q)"
proof -
  consider "0 < p" | "q < 0" | "p \<le> 0" "0 \<le> q" by linarith
  then show ?thesis
  proof cases
    case 1
    then show ?thesis using assms by (rule round64_pos_mono)
  next
    case 2
    then show ?thesis using assms by (rule round64_neg_mono)
  next
    case 3
    have P: "round64 p = Fin 0 \<or> round64 p = NInf \<or> round64 p = NZero \<or> (\<exists>r. round64 p = Fin r \<and> r < 0)"
      using 3(1) round64_neg[of p] by (cases "p = 0") auto
    have Q: "round64 q = Fin 0 \<or> round64 q = PInf \<or> (\<exists>r. round64 q = Fin r \<and> 0 \<le> r)"
      using 3(2) round64_pos[of q] by (cases "q = 0") auto
    from P Q show ?thesis by auto
  qed
qed

subsection \<open>Evaluating the rounding\<close>

lemma ilog2_unique:
  assumes "0 < a" "2 powi e \<le> a" "a < 2 powi (e + 1)"
  shows "ilog2 a = e"
proof -
  have lo: "2 powi ilog2 a \<le> a" and hi: "a < 2 powi (ilog2 a + 1)"
    using assms(1) by (rule ilog2_bounds)+
  have 1: "e < ilog2 a + 1"
  proof (rule ccontr)
    assume "\<not> e < ilog2 a + 1"
    then have "(2::rat) powi (ilog2 a + 1) \<le> 2 powi e" by (intro power_int_increasing) simp_all
    with assms(2) hi show False by linarith
  qed
  have 2: "ilog2 a < e + 1"
  proof (rule ccontr)
    assume "\<not> ilog2 a < e + 1"
    then have "(2::rat) powi (e + 1) \<le> 2 powi ilog2 a" by (intro power_int_increasing) simp_all
    with assms(3) lo show False by linarith
  qed
  from 1 2 show ?thesis by simp
qed

lemma floor_rat_numeral_divide [simp]:
  "\<lfloor>numeral a / numeral b :: rat\<rfloor> = numeral a div numeral b"
  using floor_divide_of_int_eq[of "numeral a" "numeral b", where ?'a = rat] by simp

lemma round_mag_eval:
  assumes "0 < a" "2 powi e \<le> a" "a < 2 powi (e + 1)" "- 1022 \<le> e"
  shows "round_mag a = of_int (round_half_even (a / 2 powi (e - 52))) * 2 powi (e - 52)"
  using ilog2_unique[OF assms(1-3)] assms(4) by (simp add: round_mag_def ulp_exp_def)

text \<open>Evaluation of \<open>round64\<close> on a positive normal value whose binary exponent is given.\<close>

lemma round64_eval:
  assumes "0 < a" "2 powi e \<le> a" "a < 2 powi (e + 1)" "- 1022 \<le> e" "e < 1023"
  shows "round64 a = Fin (of_int (round_half_even (a / 2 powi (e - 52))) * 2 powi (e - 52))"
proof -
  have il: "ilog2 a = e" using assms(1-3) by (rule ilog2_unique)
  have lo: "2 powi e \<le> round_mag a"
    using round_mag_lower[of a] assms(1,4) il by simp
  have "round_mag a \<le> 2 powi (e + 1)"
    using round_mag_upper[of a e] assms(1,4) il by simp
  also have "\<dots> \<le> 2 powi 1023" using assms(5) by (intro power_int_increasing) simp_all
  also have "\<dots> < (2::rat) ^ 1024" by (simp add: power_int_def)
  finally have hi: "round_mag a < 2 ^ 1024" .
  have "(0::rat) < 2 powi e" by simp
  with lo have nz: "round_mag a \<noteq> 0" by linarith
  show ?thesis
    using assms(1) hi nz round_mag_eval[OF assms(1-4)]
    by (simp add: round64_def Let_def)
qed

lemma round_mag_int:
  assumes "0 < n" "n < 2 ^ 53"
  shows "round_mag (of_int n) = of_int n"
proof -
  define a :: rat where "a = of_int n"
  define e where "e = ilog2 a"
  have a: "0 < a" "1 \<le> a" "a < 2 powi 53"
    using assms by (simp_all add: a_def powi_53 del: of_int_power of_int_numeral)
  have "ilog2 1 = 0" by (rule ilog2_unique) simp_all
  then have e0: "0 \<le> e" using ilog2_mono[of 1 a] a by (simp add: e_def)
  have "e < 53"
  proof (rule ccontr)
    assume "\<not> e < 53"
    then have "(2::rat) powi 53 \<le> 2 powi e" by (intro power_int_increasing) simp_all
    with ilog2_bounds(1)[OF a(1)] a(3) show False by (simp add: e_def)
  qed
  then have e52: "e \<le> 52" by simp
  have u: "ulp_exp a = e - 52" using e0 by (simp add: ulp_exp_def e_def)
  have "a / 2 powi (e - 52) = a * 2 powi (52 - e)"
    by (simp add: power_int_diff field_simps)
  also have "\<dots> = of_int (n * 2 ^ nat (52 - e))"
    using e52 by (simp add: a_def power_int_def)
  finally have "round_half_even (a / 2 powi (e - 52)) = n * 2 ^ nat (52 - e)"
    by (simp only: round_half_even_int)
  then have "round_mag a = of_int (n * 2 ^ nat (52 - e)) * 2 powi (e - 52)"
    by (simp add: round_mag_def u)
  also have "\<dots> = a * (2 powi (52 - e) * 2 powi (e - 52))"
    using e52 by (simp add: a_def power_int_def)
  also have "\<dots> = a" unfolding powi_prod by simp
  finally show ?thesis by (simp add: a_def)
qed

lemma round64_int_pos:
  assumes "0 < n" "n < 2 ^ 53"
  shows "round64 (of_int n) = Fin (of_int n)" and "round64 (- of_int n) = Fin (- of_int n)"
proof -
  have rm: "round_mag (of_int n) = of_int n" using assms by (rule round_mag_int)
  have "n < 2 ^ 1024" using assms(2) by (rule less_trans) simp
  then have "(of_int n :: rat) < of_int (2 ^ 1024)" by (simp only: of_int_less_iff)
  then have lt: "\<not> (2::rat) ^ 1024 \<le> of_int n" by simp
  show "round64 (of_int n) = Fin (of_int n)"
    using assms(1) rm lt by (simp add: round64_def Let_def)
  show "round64 (- of_int n) = Fin (- of_int n)"
    using assms(1) rm lt by (simp add: round64_def Let_def)
qed

lemma round64_int:
  assumes "\<bar>n\<bar> < 2 ^ 53"
  shows "round64 (of_int n) = Fin (of_int n)"
proof -
  consider "n = 0" | "0 < n" | "n < 0" by linarith
  then show ?thesis
  proof cases
    case 1
    then show ?thesis by simp
  next
    case 2
    then show ?thesis using assms by (intro round64_int_pos) simp_all
  next
    case 3
    then have "round64 (- of_int (- n)) = Fin (- of_int (- n))"
      using assms by (intro round64_int_pos) simp_all
    then show ?thesis by simp
  qed
qed

lemma round64_numeral [simp]:
  "(numeral k :: int) < 9007199254740992 \<Longrightarrow> round64 (numeral k) = Fin (numeral k)"
  "(numeral k :: int) < 9007199254740992 \<Longrightarrow> round64 (- numeral k) = Fin (- numeral k)"
  using round64_int[of "numeral k"] round64_int[of "- numeral k"] by simp_all

lemma round64_1 [simp]: "round64 1 = Fin 1" "round64 (- 1) = Fin (- 1)"
  using round64_int[of 1] round64_int[of "- 1"] by simp_all

lemmas js_arith = js_add_def js_sub_def js_neg_def js_mul_def js_div_def js_min_def js_max_def
  js_round_def signed_zero_def signed_inf_def

lemma default_fields:
  "current_maintenance_cost default_inputs = Fin 250000"
  "projected_maintenance_cost default_inputs = Fin 150000"
  "current_downtime_hours default_inputs = Fin 20"
  "downtime_cost_per_hour default_inputs = Fin 5000"
  "downtime_reduction_percent default_inputs = Fin 60"
  "current_deployments_per_year default_inputs = Fin 12"
  "deployment_increase_percent default_inputs = Fin 200"
  "modernization_cost default_inputs = Fin 500000"
  "productivity_gain_percent default_inputs = Fin 25"
  "team_salary_cost default_inputs = Fin 800000"
  by (simp_all add: default_inputs_def)

lemma default_maintenance_savings: "maintenance_savings default_inputs = Fin 100000"
  by (simp add: maintenance_savings_def default_fields js_arith)

lemma default_current_annual_downtime_cost: "current_annual_downtime_cost default_inputs = Fin 1200000"
  by (simp add: current_annual_downtime_cost_def default_fields js_arith)

lemma round64_3_5: "round64 (3 / 5) = Fin (5404319552844595 / 9007199254740992)"
  by (subst round64_eval[where e = "- 1"]) (simp_all add: round_half_even_def Let_def power_int_minus)

lemma default_downtime_savings: "downtime_savings default_inputs = Fin 720000"
proof -
  have "round64 (1200000 * (5404319552844595 / 9007199254740992)) = Fin 720000"
    by (subst round64_eval[where e = 19]) (simp_all add: round_half_even_def Let_def power_int_minus)
  then show ?thesis
    by (simp add: downtime_savings_def default_current_annual_downtime_cost js_arith default_fields round64_3_5)
qed

lemma round64_1_4: "round64 (1 / 4) = Fin (1 / 4)"
  by (subst round64_eval[where e = "- 2"]) (simp_all add: round_half_even_def Let_def power_int_minus)

lemma default_productivity_value: "productivity_value default_inputs = Fin 200000"
  by (simp add: productivity_value_def js_arith default_fields round64_1_4)

lemma default_deployment_efficiency_gain: "deployment_efficiency_gain default_inputs = Fin 24000"
  by (simp add: deployment_efficiency_gain_def js_arith default_fields)

lemma default_total_annual_savings: "total_annual_savings default_inputs = Fin 1044000"
  by (simp add: total_annual_savings_def default_maintenance_savings default_downtime_savings default_productivity_value default_deployment_efficiency_gain js_arith)

lemma default_net_benefit: "net_benefit default_inputs = Fin 2632000"
  by (simp add: net_benefit_def three_year_benefits_def default_total_annual_savings js_arith default_fields)

lemma default_roi: "roi default_inputs = Fin (4630263366890291 / 8796093022208)"
proof -
  have 1: "round64 (658 / 125) = Fin (5926737109619573 / 1125899906842624)"
    by (subst round64_eval[where e = 2]) (simp_all add: round_half_even_def Let_def power_int_minus)
  have 2: "round64 (148168427740489325 / 281474976710656) = Fin (4630263366890291 / 8796093022208)"
    by (subst round64_eval[where e = 9]) (simp_all add: round_half_even_def Let_def power_int_minus)
  show ?thesis
    by (simp add: roi_def default_net_benefit js_arith default_fields 1 2)
qed

lemma default_payback_ratio_12: "js_mul (payback_ratio default_inputs) (Fin 12) = Fin (6470689119785195 / 1125899906842624)"
proof -
  have 1: "round64 (125 / 261) = Fin (8627585493046927 / 18014398509481984)"
    by (subst round64_eval[where e = "- 2"]) (simp_all add: round_half_even_def Let_def power_int_minus)
  have 2: "round64 (25882756479140781 / 4503599627370496) = Fin (6470689119785195 / 1125899906842624)"
    by (subst round64_eval[where e = 2]) (simp_all add: round_half_even_def Let_def power_int_minus)
  show ?thesis
    by (simp add: payback_ratio_def default_total_annual_savings js_arith default_fields 1 2)
qed

lemma round64_overflow:
  assumes "2 powi 1024 \<le> a"
  shows "round64 a = PInf"
proof -
  have a: "0 < a" using assms by (rule less_le_trans[rotated]) simp
  have "ilog2 (2 powi 1024) = 1024" by (rule ilog2_unique) simp_all
  then have il: "1024 \<le> ilog2 a" using ilog2_mono[of "2 powi 1024" a] assms by simp
  then have "(2::rat) powi 1024 \<le> 2 powi ilog2 a" by (intro power_int_increasing) simp_all
  also have "\<dots> \<le> round_mag a" using a il by (intro round_mag_lower) simp_all
  finally have "2 ^ 1024 \<le> round_mag a" by (simp add: power_int_def)
  then show ?thesis using a by (simp add: round64_def Let_def signed_inf_def)
qed


lemma round64_eval_top:
  assumes "0 < a" "2 powi 1023 \<le> a" "a < 2 powi 1024"
    and "of_int (round_half_even (a / 2 powi 971)) * 2 powi 971 < (2::rat) ^ 1024"
  shows "round64 a = Fin (of_int (round_half_even (a / 2 powi 971)) * 2 powi 971)"
proof -
  have il: "ilog2 a = 1023" using assms(1-3) by (intro ilog2_unique) simp_all
  have rm: "round_mag a = of_int (round_half_even (a / 2 powi 971)) * 2 powi 971"
    using round_mag_eval[of a 1023] assms(1-3) by simp
  have "2 powi 1023 \<le> round_mag a" using round_mag_lower[of a] assms(1) il by simp
  moreover have "(0::rat) < 2 powi 1023" by simp
  ultimately have nz: "round_mag a \<noteq> 0" by linarith
  show ?thesis using assms(1,4) nz rm by (simp add: round64_def Let_def)
qed

lemma round64_1e308: "round64 (10 ^ 308) = Fin (5010420900022432 * 2 ^ 971)"
  by (subst round64_eval_top) (simp_all add: round_half_even_def Let_def)

lemma overflow_12: "js_mul (Fin (5010420900022432 * 2 ^ 971)) (Fin 12) = PInf"
proof -
  have "round64 (5010420900022432 * 2 ^ 971 * 12) = PInf"
    by (rule round64_overflow) simp
  then show ?thesis by (simp add: js_mul_def)
qed

section \<open>The local constants are those of \<open>computeROI\<close>\<close>

lemma computeROI_fields:
  "roi_percentage (computeROI i) = js_max (Fin 50) (js_round (roi i))"
  "payback_months (computeROI i) = js_min (Fin 18) (payback_months_local i)"
  "net_benefit_3_years (computeROI i) = net_benefit i"
  "annual_savings (computeROI i) = total_annual_savings i"
  by (simp_all add: computeROI_def Let_def roi_def payback_months_local_def payback_ratio_def
        net_benefit_def three_year_benefits_def total_annual_savings_def
        deployment_efficiency_gain_def productivity_value_def downtime_savings_def
        current_annual_downtime_cost_def maintenance_savings_def)

section \<open>NaN, signs and order through the operations\<close>

lemma is_nan_js_neg [simp]: "is_nan (js_neg x) = is_nan x"
  by (cases x) (simp_all add: js_neg_def)

lemma is_finite_js_neg [simp]: "is_finite (js_neg x) = is_finite x"
  by (cases x) (simp_all add: js_neg_def)

lemma is_nan_js_add:
  "is_nan (js_add x y) \<longleftrightarrow> is_nan x \<or> is_nan y \<or> (x = PInf \<and> y = NInf) \<or> (x = NInf \<and> y = PInf)"
  by (cases x; cases y) (simp_all add: js_add_def signed_zero_def)

lemma is_nan_js_mul:
  "is_nan (js_mul x y) \<longleftrightarrow> is_nan x \<or> is_nan y \<or> (is_inf x \<and> is_zero y) \<or> (is_zero x \<and> is_inf y)"
  by (simp add: js_mul_def signed_zero_def signed_inf_def)

lemma is_nan_js_div:
  "is_nan (js_div x y) \<longleftrightarrow> is_nan x \<or> is_nan y \<or> (is_inf x \<and> is_inf y) \<or> (is_zero x \<and> is_zero y)"
  by (simp add: js_div_def signed_zero_def signed_inf_def)

lemma is_nan_js_round [simp]: "is_nan (js_round x) = is_nan x"
  by (cases x) (simp_all add: js_round_def)

lemma sign_bit_round64: "q < 0 \<Longrightarrow> sign_bit (round64 q)"
  using round64_neg[of q] by auto

lemma sign_bit_js_div:
  assumes "js_lt (Fin 0) x" "is_finite x" "js_lt y (Fin 0)"
  shows "sign_bit (js_div x y)"
  using assms
  by (cases x; cases y) (auto simp: js_div_def signed_zero_def signed_inf_def divide_neg_pos divide_pos_neg intro!: sign_bit_round64)

lemma sign_bit_js_div':
  assumes "js_lt x (Fin 0)" "is_finite y" "js_lt (Fin 0) y"
  shows "sign_bit (js_div x y)"
  using assms
  by (cases x; cases y) (auto simp: js_div_def signed_zero_def signed_inf_def divide_neg_pos divide_pos_neg intro!: sign_bit_round64)

lemma sign_bit_js_mul_pos:
  assumes "sign_bit x" "0 < c"
  shows "sign_bit (js_mul x (Fin c))"
  using assms
  by (cases x) (auto simp: js_mul_def signed_zero_def signed_inf_def mult_neg_pos intro!: sign_bit_round64)

lemma sign_bit_js_round: "sign_bit x \<Longrightarrow> sign_bit (js_round x)"
  by (cases x) (auto simp: js_round_def)

lemma js_max_sign_bit:
  assumes "sign_bit x" "0 < c"
  shows "js_max (Fin c) x = Fin c"
  using assms by (cases x) (auto simp: js_max_def)

lemma js_max_ge:
  assumes "\<not> is_nan x"
  shows "js_le (Fin c) (js_max (Fin c) x)"
  using assms by (cases x) (auto simp: js_max_def signed_zero_def)

text \<open>What the two clamps leave of any number that is not NaN.\<close>

lemma clamp_1_18:
  assumes "\<not> is_nan x"
  shows "\<exists>k. js_min (Fin 18) (js_max (Fin 1) (js_round x)) = Fin (of_int k) \<and> 1 \<le> k \<and> k \<le> 18"
proof (cases x)
  case (Fin q)
  show ?thesis
  proof (cases "q < 0 \<and> - (1 / 2) \<le> q")
    case True
    then have "js_min (Fin 18) (js_max (Fin 1) (js_round x)) = Fin (of_int 1)"
      by (simp add: Fin js_round_def js_max_def js_min_def)
    then show ?thesis by (intro exI[of _ 1]) simp
  next
    case False
    define n where "n = \<lfloor>q + 1 / 2\<rfloor>"
    have r: "js_round x = Fin (of_int n)" using False by (auto simp add: Fin js_round_def n_def)
    consider "n \<le> 1" | "1 < n" "n < 18" | "18 \<le> n" by linarith
    then show ?thesis
    proof cases
      case 1
      then have "js_min (Fin 18) (js_max (Fin 1) (js_round x)) = Fin (of_int 1)"
        by (auto simp add: r js_max_def js_min_def signed_zero_def)
      then show ?thesis by (intro exI[of _ 1]) simp
    next
      case 2
      then have "js_min (Fin 18) (js_max (Fin 1) (js_round x)) = Fin (of_int n)"
        by (auto simp add: r js_max_def js_min_def signed_zero_def)
      then show ?thesis using 2 by (intro exI[of _ n]) simp
    next
      case 3
      then have "js_min (Fin 18) (js_max (Fin 1) (js_round x)) = Fin (of_int 18)"
        by (auto simp add: r js_max_def js_min_def signed_zero_def)
      then show ?thesis by (intro exI[of _ 18]) simp
    qed
  qed
next
  case NaN
  with assms show ?thesis by simp
next
  case PInf
  then have "js_min (Fin 18) (js_max (Fin 1) (js_round x)) = Fin (of_int 18)"
    by (simp add: js_round_def js_max_def js_min_def)
  then show ?thesis by (intro exI[of _ 18]) simp
next
  case NInf
  then have "js_min (Fin 18) (js_max (Fin 1) (js_round x)) = Fin (of_int 1)"
    by (simp add: js_round_def js_max_def js_min_def)
  then show ?thesis by (intro exI[of _ 1]) simp
next
  case NZero
  then have "js_min (Fin 18) (js_max (Fin 1) (js_round x)) = Fin (of_int 1)"
    by (simp add: js_round_def js_max_def js_min_def)
  then show ?thesis by (intro exI[of _ 1]) simp
qed

text \<open>Where NaN can and cannot come from in the two quotients.\<close>

lemma net_benefit_not_nan:
  assumes "is_finite (modernization_cost i)" "\<not> is_nan (total_annual_savings i)"
  shows "\<not> is_nan (net_benefit i)"
  using assms
  by (cases "modernization_cost i") (auto simp: net_benefit_def three_year_benefits_def js_sub_def is_nan_js_add is_nan_js_mul js_neg_def)

lemma roi_not_nan:
  assumes "is_finite (modernization_cost i)" "\<not> is_zero (modernization_cost i)" "\<not> is_nan (net_benefit i)"
  shows "\<not> is_nan (roi i)"
  using assms
  by (cases "modernization_cost i") (auto simp: roi_def is_nan_js_mul is_nan_js_div js_div_def signed_inf_def signed_zero_def)

lemma payback_ratio_not_nan:
  assumes "is_finite (modernization_cost i)" "\<not> is_zero (modernization_cost i)" "\<not> is_nan (total_annual_savings i)"
  shows "\<not> is_nan (payback_ratio i)" "\<not> is_nan (js_mul (payback_ratio i) (Fin 12))"
  using assms
  by (cases "modernization_cost i"; auto simp: payback_ratio_def is_nan_js_mul is_nan_js_div js_div_def signed_inf_def signed_zero_def)+

lemma round64_nonneg: "0 \<le> q \<Longrightarrow> js_le (Fin 0) (round64 q)" "0 \<le> q \<Longrightarrow> js_le NZero (round64 q)"
  using round64_mono[of 0 q] by (cases "round64 q"; simp)+

lemma round64_nonpos: "q \<le> 0 \<Longrightarrow> js_le (round64 q) (Fin 0)" "q \<le> 0 \<Longrightarrow> js_le (round64 q) NZero"
  using round64_mono[of q 0] by (cases "round64 q"; simp)+

lemma js_le_PInf [simp]: "js_le x PInf = (\<not> is_nan x)"
  by (cases x) simp_all

lemma js_le_NInf [simp]: "js_le NInf x = (\<not> is_nan x)"
  by (cases x) simp_all

lemma js_add_mono_left:
  assumes "is_nan x1 \<or> is_nan x2 \<or> js_le x1 x2"
  shows "is_nan (js_add x1 y) \<or> is_nan (js_add x2 y) \<or> js_le (js_add x1 y) (js_add x2 y)"
  using assms
  by (cases x1; cases x2; cases y)
     (auto simp: js_add_def signed_zero_def intro!: round64_mono round64_nonneg round64_nonpos)

lemma js_mul_mono_left:
  assumes "is_nan x1 \<or> is_nan x2 \<or> js_le x1 x2" "0 < c"
  shows "is_nan (js_mul x1 (Fin c)) \<or> is_nan (js_mul x2 (Fin c)) \<or> js_le (js_mul x1 (Fin c)) (js_mul x2 (Fin c))"
  using assms
  by (cases x1; cases x2)
     (auto simp: js_mul_def signed_zero_def signed_inf_def mult_le_0_iff zero_le_mult_iff intro!: round64_mono round64_nonneg round64_nonpos)

lemma js_sub_mono_left:
  assumes "is_nan x1 \<or> is_nan x2 \<or> js_le x1 x2"
  shows "is_nan (js_sub x1 y) \<or> is_nan (js_sub x2 y) \<or> js_le (js_sub x1 y) (js_sub x2 y)"
  unfolding js_sub_def using assms by (rule js_add_mono_left)

section \<open>The input handler\<close>

lemmas parse_simps = parseFloat_def Let_def is_white_space_def is_digit_def digit_val_def
  starts_with_def signed_zero_def signed_inf_def

lemma parseFloat_neg5: "parseFloat ''-5'' = Fin (- 5)"
  by (simp add: parse_simps)

lemma parseFloat_abc: "parseFloat ''abc'' = NaN"
  by (simp add: parse_simps)

lemma parseFloat_empty: "parseFloat '''' = NaN"
  by (simp add: parse_simps)

lemma parseFloat_0: "parseFloat ''0'' = Fin 0"
  by (simp add: parse_simps)

lemma parseFloat_1e308_a: "parseFloat ''1e308'' = round64 (10 ^ 308)"
  by (simp add: parse_simps)

lemma inputs_on_input_change [simp]:
  "inputs (on_input_change f v s) = set_field f (js_or (parseFloat v) (Fin 0)) (inputs s)"
  by (simp add: on_input_change_def calculateROI_def handleInputChange_def)

lemma results_on_input_change:
  "results (on_input_change f v s) = computeROI (inputs (on_input_change f v s))"
  by (simp add: on_input_change_def calculateROI_def)

lemma inputs_mounted_state [simp]: "inputs mounted_state = default_inputs"
  by (simp add: mounted_state_def calculateROI_def initial_state_def)

lemma inputs_zero_state:
  "inputs zero_state =
     \<lparr> current_maintenance_cost = Fin 0, projected_maintenance_cost = Fin 0,
       current_downtime_hours = Fin 0, downtime_cost_per_hour = Fin 0,
       downtime_reduction_percent = Fin 0, current_deployments_per_year = Fin 0,
       deployment_increase_percent = Fin 0, modernization_cost = Fin 0,
       productivity_gain_percent = Fin 0, team_salary_cost = Fin 0 \<rparr>"
  by (simp add: zero_state_def all_fields_def parseFloat_0 js_or_def truthy_def default_inputs_def)

section \<open>Evaluating the example records\<close>

lemma savings_terms_upd_current_maintenance_cost [simp]:
  "downtime_savings (i\<lparr>current_maintenance_cost := v\<rparr>) = downtime_savings i"
  "productivity_value (i\<lparr>current_maintenance_cost := v\<rparr>) = productivity_value i"
  "deployment_efficiency_gain (i\<lparr>current_maintenance_cost := v\<rparr>) = deployment_efficiency_gain i"
  by (simp_all add: downtime_savings_def current_annual_downtime_cost_def productivity_value_def
        deployment_efficiency_gain_def)

lemma savings_terms_upd_projected_maintenance_cost [simp]:
  "downtime_savings (i\<lparr>projected_maintenance_cost := v\<rparr>) = downtime_savings i"
  "productivity_value (i\<lparr>projected_maintenance_cost := v\<rparr>) = productivity_value i"
  "deployment_efficiency_gain (i\<lparr>projected_maintenance_cost := v\<rparr>) = deployment_efficiency_gain i"
  by (simp_all add: downtime_savings_def current_annual_downtime_cost_def productivity_value_def
        deployment_efficiency_gain_def)

lemma total_annual_savings_upd_modernization_cost [simp]:
  "total_annual_savings (i\<lparr>modernization_cost := v\<rparr>) = total_annual_savings i"
  by (simp add: total_annual_savings_def maintenance_savings_def downtime_savings_def
        current_annual_downtime_cost_def productivity_value_def deployment_efficiency_gain_def)

text \<open>The investment raised to 5000000: the three-year net benefit is negative.\<close>

lemma costly_net_benefit:
  "net_benefit (default_inputs\<lparr>modernization_cost := Fin 5000000\<rparr>) = Fin (- 1868000)"
  by (simp add: net_benefit_def three_year_benefits_def default_total_annual_savings js_arith)

text \<open>The investment set to 0.\<close>

lemma free_roi: "roi (default_inputs\<lparr>modernization_cost := Fin 0\<rparr>) = PInf"
  by (simp add: roi_def net_benefit_def three_year_benefits_def default_total_annual_savings js_arith)

text \<open>The projected maintenance cost raised to 2000000: the annual savings are negative.\<close>

lemma rising_total_annual_savings:
  "total_annual_savings (default_inputs\<lparr>projected_maintenance_cost := Fin 2000000\<rparr>) = Fin (- 806000)"
  by (simp add: total_annual_savings_def maintenance_savings_def default_fields
        default_downtime_savings default_productivity_value default_deployment_efficiency_gain js_arith)

text \<open>The current maintenance cost raised to 300000.\<close>

lemma raised_total_annual_savings:
  "total_annual_savings (default_inputs\<lparr>current_maintenance_cost := Fin 300000\<rparr>) = Fin 1094000"
  by (simp add: total_annual_savings_def maintenance_savings_def default_fields
        default_downtime_savings default_productivity_value default_deployment_efficiency_gain js_arith)

text \<open>Every field 0.\<close>

lemma zero_total_annual_savings: "total_annual_savings (inputs zero_state) = Fin 0"
  by (simp add: inputs_zero_state total_annual_savings_def maintenance_savings_def
        downtime_savings_def current_annual_downtime_cost_def productivity_value_def
        deployment_efficiency_gain_def js_arith)

text \<open>The overflow: \<open>1e308 * 12\<close> is \<open>Infinity\<close>, and \<open>Infinity * 0\<close> is NaN.\<close>

lemma inputs_overflow_state:
  "inputs overflow_state =
     default_inputs\<lparr>current_downtime_hours := Fin (5010420900022432 * 2 ^ 971),
                     downtime_reduction_percent := Fin 0\<rparr>"
proof -
  have "js_or (round64 (10 ^ 308)) (Fin 0) = Fin (5010420900022432 * 2 ^ 971)"
    unfolding round64_1e308 by (simp add: js_or_def truthy_def)
  then show ?thesis
    by (simp add: overflow_state_def parseFloat_1e308_a parseFloat_0 js_or_def truthy_def)
qed

lemma overflow_downtime_savings:
  assumes "current_downtime_hours i = Fin (5010420900022432 * 2 ^ 971)"
    and "downtime_cost_per_hour i = Fin 5000" and "downtime_reduction_percent i = Fin 0"
  shows "downtime_savings i = NaN"
proof -
  have "current_annual_downtime_cost i = PInf"
    unfolding current_annual_downtime_cost_def assms overflow_12 by (simp add: js_mul_def signed_inf_def)
  moreover have "js_div (Fin 0) (Fin 100) = Fin 0" by (simp add: js_div_def signed_zero_def)
  ultimately show ?thesis by (simp add: downtime_savings_def assms js_mul_def)
qed

lemma nan_downtime_savings:
  assumes "downtime_savings i = NaN"
  shows "total_annual_savings i = NaN" "net_benefit i = NaN" "roi i = NaN"
    "roi_percentage (computeROI i) = NaN" "payback_months (computeROI i) = NaN"
proof -
  show t: "total_annual_savings i = NaN"
    by (simp add: total_annual_savings_def assms js_add_def)
  show n: "net_benefit i = NaN"
    by (simp add: net_benefit_def three_year_benefits_def t js_mul_def js_sub_def js_add_def)
  show r: "roi i = NaN" by (simp add: roi_def n js_div_def js_mul_def)
  show "roi_percentage (computeROI i) = NaN"
    by (simp add: computeROI_fields r js_round_def js_max_def)
  show "payback_months (computeROI i) = NaN"
    by (simp add: computeROI_fields payback_months_local_def payback_ratio_def t js_div_def
          js_mul_def js_round_def js_max_def js_min_def)
qed

lemma overflow_state_downtime_savings:
  "downtime_savings (inputs overflow_state) = NaN"
  "downtime_savings ((inputs overflow_state)\<lparr>current_maintenance_cost := v\<rparr>) = NaN"
  by (simp_all add: overflow_downtime_savings inputs_overflow_state default_fields)

lemma finite_overflow_inputs: "finite_inputs (inputs overflow_state)"
  by (simp add: inputs_overflow_state finite_inputs_def default_fields)

section \<open>Annual savings and the three-year net benefit\<close>

text \<open>
  Claim C1. For every input record, \<open>annual_savings\<close> is the sum of the maintenance savings,
  the downtime savings, the productivity value and the deployment gain capped at 50000,
  each computed from the inputs by the stated formula, and \<open>net_benefit_3_years\<close> is that
  sum times 3 minus \<open>modernization_cost\<close>. Both are returned as computed: no \<open>Math.min\<close>,
  \<open>Math.max\<close> or \<open>Math.round\<close> is applied to them.
\<close>

theorem C1_annual_savings_and_net_benefit:
  "annual_savings (computeROI i) =
     js_add
       (js_add
          (js_add
             (js_sub (current_maintenance_cost i) (projected_maintenance_cost i))
             (js_mul (js_mul (js_mul (current_downtime_hours i) (Fin 12)) (downtime_cost_per_hour i))
                (js_div (downtime_reduction_percent i) (Fin 100))))
          (js_mul (team_salary_cost i) (js_div (productivity_gain_percent i) (Fin 100))))
       (js_min (Fin 50000)
          (js_mul (js_mul (current_deployments_per_year i) (Fin 1000))
             (js_div (deployment_increase_percent i) (Fin 100))))
   \<and> net_benefit_3_years (computeROI i) =
       js_sub (js_mul (annual_savings (computeROI i)) (Fin 3)) (modernization_cost i)"
  by (simp add: computeROI_def Let_def)

section \<open>The default inputs\<close>

text \<open>
  Claim C2. On the default input record (the initial value of the \<open>inputs\<close> state)
  \<open>computeROI\<close> returns \<open>annual_savings = 1044000\<close>, \<open>net_benefit_3_years = 2632000\<close>,
  \<open>roi_percentage = 526\<close> and \<open>payback_months = 6\<close>, every operation rounded to binary64.
\<close>

theorem C2_default_results:
  "computeROI default_inputs =
     \<lparr> roi_percentage = Fin 526, payback_months = Fin 6,
       net_benefit_3_years = Fin 2632000, annual_savings = Fin 1044000 \<rparr>"
proof -
  have "roi_percentage (computeROI default_inputs) = Fin 526"
    unfolding computeROI_fields default_roi by (simp add: js_max_def js_round_def)
  moreover have "payback_months (computeROI default_inputs) = Fin 6"
    unfolding computeROI_fields payback_months_local_def default_payback_ratio_12
    by (simp add: js_max_def js_min_def js_round_def)
  moreover have "net_benefit_3_years (computeROI default_inputs) = Fin 2632000"
    by (simp add: computeROI_fields default_net_benefit)
  moreover have "annual_savings (computeROI default_inputs) = Fin 1044000"
    by (simp add: computeROI_fields default_total_annual_savings)
  ultimately show ?thesis by (cases "computeROI default_inputs") simp
qed

section \<open>The floor of the ROI percentage\<close>

text \<open>
  Where the floor holds. For every input record with a finite \<open>modernization_cost > 0\<close>
  whose \<open>net_benefit_3_years\<close> is not NaN, \<open>roi_percentage\<close> is
  \<open>max(50, round(((annual_savings * 3 - modernization_cost) / modernization_cost) * 100))\<close>
  and is at least 50; when \<open>net_benefit_3_years\<close> is negative it is exactly 50.
\<close>

lemma roi_percentage_floor_unless_nan:
  assumes "js_lt (Fin 0) (modernization_cost i)" and "is_finite (modernization_cost i)"
    and "\<not> is_nan (net_benefit_3_years (computeROI i))"
  shows "roi_percentage (computeROI i) =
           js_max (Fin 50)
             (js_round
                (js_mul
                   (js_div
                      (js_sub (js_mul (annual_savings (computeROI i)) (Fin 3)) (modernization_cost i))
                      (modernization_cost i))
                   (Fin 100)))
         \<and> js_le (Fin 50) (roi_percentage (computeROI i))
         \<and> (js_lt (net_benefit_3_years (computeROI i)) (Fin 0)
              \<longrightarrow> roi_percentage (computeROI i) = Fin 50)"
proof -
  have nz: "\<not> is_zero (modernization_cost i)"
    using assms(1) by (cases "modernization_cost i") auto
  have nn: "\<not> is_nan (net_benefit i)" using assms(3) by (simp add: computeROI_fields)
  have "\<not> is_nan (roi i)" using assms(2) nz nn by (rule roi_not_nan)
  then have ge: "js_le (Fin 50) (roi_percentage (computeROI i))"
    by (simp add: computeROI_fields js_max_ge)
  have neg: "roi_percentage (computeROI i) = Fin 50"
    if "js_lt (net_benefit_3_years (computeROI i)) (Fin 0)"
  proof -
    have "js_lt (net_benefit i) (Fin 0)" using that by (simp add: computeROI_fields)
    then have "sign_bit (js_div (net_benefit i) (modernization_cost i))"
      using assms(2,1) by (rule sign_bit_js_div')
    then have "sign_bit (js_round (roi i))"
      unfolding roi_def by (intro sign_bit_js_round sign_bit_js_mul_pos) simp_all
    then show ?thesis by (simp add: computeROI_fields js_max_sign_bit)
  qed
  have "roi_percentage (computeROI i) =
           js_max (Fin 50)
             (js_round
                (js_mul
                   (js_div
                      (js_sub (js_mul (annual_savings (computeROI i)) (Fin 3)) (modernization_cost i))
                      (modernization_cost i))
                   (Fin 100)))"
    by (simp add: computeROI_def Let_def)
  with ge neg show ?thesis by blast
qed

lemma roi_percentage_floor_unless_nan_example:
  "js_lt (Fin 0) (modernization_cost (default_inputs\<lparr>modernization_cost := Fin 5000000\<rparr>))
   \<and> is_finite (modernization_cost (default_inputs\<lparr>modernization_cost := Fin 5000000\<rparr>))
   \<and> net_benefit_3_years (computeROI (default_inputs\<lparr>modernization_cost := Fin 5000000\<rparr>))
       = Fin (- 1868000)
   \<and> roi_percentage (computeROI (default_inputs\<lparr>modernization_cost := Fin 5000000\<rparr>)) = Fin 50
   \<and> js_le (Fin 50) (roi_percentage (computeROI (default_inputs\<lparr>modernization_cost := Fin 5000000\<rparr>)))"
proof -
  define i where "i = default_inputs\<lparr>modernization_cost := Fin 5000000\<rparr>"
  have h1: "js_lt (Fin 0) (modernization_cost i)" by (simp add: i_def)
  have h2: "is_finite (modernization_cost i)" by (simp add: i_def)
  have n: "net_benefit_3_years (computeROI i) = Fin (- 1868000)"
    by (simp add: i_def computeROI_fields costly_net_benefit)
  then have h3: "\<not> is_nan (net_benefit_3_years (computeROI i))" by simp
  have "js_lt (net_benefit_3_years (computeROI i)) (Fin 0)" by (simp add: n)
  with roi_percentage_floor_unless_nan [OF h1 h2 h3] h1 h2 n show ?thesis
    unfolding i_def by blast
qed

text \<open>
  Claim C3. For every input record with \<open>modernization_cost > 0\<close>, \<open>roi_percentage\<close> is
  \<open>max(50, round(raw ROI))\<close> and so at least 50 whatever the raw ROI. The source's comment
  at that line says the same (\<open>Ensure minimum 50% ROI\<close>), and the code does not do it:
  \<open>1e308\<close> hours of downtime and a reduction of 0 percent are finite inputs with
  \<open>modernization_cost = 500000 > 0\<close>, the downtime cost overflows to \<open>Infinity\<close>,
  \<open>Infinity * 0\<close> is NaN, and \<open>Math.max(50, NaN)\<close> is NaN, which is not at least 50.
\<close>

theorem C3_roi_percentage_nan_on_overflow:
  "finite_inputs (inputs overflow_state)
   \<and> js_lt (Fin 0) (modernization_cost (inputs overflow_state))
   \<and> results overflow_state = computeROI (inputs overflow_state)
   \<and> roi_percentage (computeROI (inputs overflow_state)) = NaN
   \<and> \<not> js_le (Fin 50) (roi_percentage (computeROI (inputs overflow_state)))"
proof -
  have "roi_percentage (computeROI (inputs overflow_state)) = NaN"
    using overflow_state_downtime_savings(1) by (rule nan_downtime_savings)
  moreover have "js_lt (Fin 0) (modernization_cost (inputs overflow_state))"
    by (simp add: inputs_overflow_state default_fields)
  moreover have "results overflow_state = computeROI (inputs overflow_state)"
    unfolding overflow_state_def by (rule results_on_input_change)
  ultimately show ?thesis using finite_overflow_inputs by simp
qed

section \<open>The payback period on valid positive inputs\<close>

text \<open>
  Claim C4. For all valid positive inputs (every field a finite number greater than 0)
  with \<open>total_annual_savings > 0\<close>, \<open>payback_months\<close> is
  \<open>min(18, max(1, round((modernization_cost / total_annual_savings) * 12)))\<close>, an integer
  between 1 and 18, and \<open>roi_percentage\<close> is at least 50.
\<close>

theorem C4_payback_months_range:
  assumes "valid_positive i" and "js_lt (Fin 0) (total_annual_savings i)"
  shows "payback_months (computeROI i) =
           js_min (Fin 18)
             (js_max (Fin 1)
                (js_round
                   (js_mul (js_div (modernization_cost i) (total_annual_savings i)) (Fin 12))))
         \<and> (\<exists>k. payback_months (computeROI i) = Fin (of_int k) \<and> 1 \<le> k \<and> k \<le> 18)
         \<and> js_le (Fin 50) (roi_percentage (computeROI i))"
proof -
  have fin: "is_finite (modernization_cost i)" and pos: "js_lt (Fin 0) (modernization_cost i)"
    using assms(1) by (simp_all add: valid_positive_def finite_inputs_def)
  have nz: "\<not> is_zero (modernization_cost i)"
    using pos by (cases "modernization_cost i") auto
  have tn: "\<not> is_nan (total_annual_savings i)"
    using assms(2) by (cases "total_annual_savings i") auto
  have "\<not> is_nan (js_mul (payback_ratio i) (Fin 12))"
    using fin nz tn by (rule payback_ratio_not_nan)
  then have "\<exists>k. js_min (Fin 18) (js_max (Fin 1) (js_round (js_mul (payback_ratio i) (Fin 12))))
                 = Fin (of_int k) \<and> 1 \<le> k \<and> k \<le> 18"
    by (rule clamp_1_18)
  then have rng: "\<exists>k. payback_months (computeROI i) = Fin (of_int k) \<and> 1 \<le> k \<and> k \<le> 18"
    by (simp add: computeROI_fields payback_months_local_def)
  have "\<not> is_nan (net_benefit i)" using fin tn by (rule net_benefit_not_nan)
  with fin nz have "\<not> is_nan (roi i)" by (rule roi_not_nan)
  then have ge: "js_le (Fin 50) (roi_percentage (computeROI i))"
    by (simp add: computeROI_fields js_max_ge)
  have "payback_months (computeROI i) =
           js_min (Fin 18)
             (js_max (Fin 1)
                (js_round
                   (js_mul (js_div (modernization_cost i) (total_annual_savings i)) (Fin 12))))"
    by (simp add: computeROI_fields payback_months_local_def payback_ratio_def)
  with rng ge show ?thesis by blast
qed

theorem C4_payback_months_range_witness:
  "valid_positive default_inputs
   \<and> js_lt (Fin 0) (total_annual_savings default_inputs)
   \<and> (\<exists>k. payback_months (computeROI default_inputs) = Fin (of_int k) \<and> 1 \<le> k \<and> k \<le> 18)
   \<and> js_le (Fin 50) (roi_percentage (computeROI default_inputs))"
proof -
  have h1: "valid_positive default_inputs"
    by (simp add: valid_positive_def finite_inputs_def default_fields)
  have h2: "js_lt (Fin 0) (total_annual_savings default_inputs)"
    by (simp add: default_total_annual_savings)
  from C4_payback_months_range [OF h1 h2] h1 h2 show ?thesis by blast
qed

section \<open>The cap on the deployment gain\<close>

text \<open>
  Claim C5. Whatever the inputs, the deployment efficiency gain never exceeds 50000: it is
  not greater than 50000, being either at most 50000 or NaN (which compares with nothing).
\<close>

theorem C5_deployment_gain_capped:
  "\<not> js_lt (Fin 50000) (deployment_efficiency_gain i)
   \<and> (is_nan (deployment_efficiency_gain i) \<or> js_le (deployment_efficiency_gain i) (Fin 50000))"
proof -
  define x where "x = js_mul (js_mul (current_deployments_per_year i) (Fin 1000))
                        (js_div (deployment_increase_percent i) (Fin 100))"
  have "\<not> js_lt (Fin 50000) (js_min (Fin 50000) x)
        \<and> (is_nan (js_min (Fin 50000) x) \<or> js_le (js_min (Fin 50000) x) (Fin 50000))"
    by (cases x) (auto simp: js_min_def)
  then show ?thesis by (simp add: deployment_efficiency_gain_def x_def)
qed

section \<open>What the input handler stores\<close>

lemma stored_field [simp]: "get_field f (set_field f v i) = v"
  by (cases f) simp_all

text \<open>
  Claim C6, as amended. For every text entered in a field, the handler stores
  \<open>parseFloat(text)\<close> unchanged when it is a number other than zero, a negative number
  included, and stores 0 when \<open>parseFloat\<close> gives NaN (non-numeric text) or a zero. So
  \<open>computeROI\<close> never receives NaN or \<open>-0\<close> from this layer, and it does receive negative
  numbers.
\<close>

theorem C6_input_coercion:
  "get_field f (inputs (handleInputChange f v s)) =
     (if is_nan (parseFloat v) \<or> is_zero (parseFloat v) then Fin 0 else parseFloat v)
   \<and> \<not> is_nan (get_field f (inputs (handleInputChange f v s)))
   \<and> get_field f (inputs (handleInputChange f v s)) \<noteq> NZero
   \<and> (js_lt (parseFloat v) (Fin 0)
        \<longrightarrow> get_field f (inputs (handleInputChange f v s)) = parseFloat v
            \<and> js_lt (get_field f (inputs (handleInputChange f v s))) (Fin 0))"
proof -
  have st: "get_field f (inputs (handleInputChange f v s)) = js_or (parseFloat v) (Fin 0)"
    by (simp add: handleInputChange_def)
  show ?thesis unfolding st
    by (cases "parseFloat v") (auto simp: js_or_def truthy_def)
qed

theorem C6_input_coercion_witness:
  "js_lt (parseFloat ''-5'') (Fin 0)
   \<and> get_field Modernization_cost (inputs (handleInputChange Modernization_cost ''-5'' mounted_state))
       = parseFloat ''-5''
   \<and> js_lt (get_field Modernization_cost
              (inputs (handleInputChange Modernization_cost ''-5'' mounted_state))) (Fin 0)
   \<and> get_field Modernization_cost (inputs (handleInputChange Modernization_cost ''abc'' mounted_state))
       = Fin 0
   \<and> get_field Modernization_cost (inputs (handleInputChange Modernization_cost [] mounted_state))
       = Fin 0"
proof -
  have h: "js_lt (parseFloat ''-5'') (Fin 0)" by (simp add: parseFloat_neg5)
  have n: "is_nan (parseFloat ''abc'')" "is_nan (parseFloat [])"
    by (simp_all add: parseFloat_abc parseFloat_empty)
  from C6_input_coercion [of Modernization_cost "''-5''" mounted_state]
       C6_input_coercion [of Modernization_cost "''abc''" mounted_state]
       C6_input_coercion [of Modernization_cost "[]" mounted_state] h n
  show ?thesis by (simp add: parseFloat_neg5 parseFloat_abc parseFloat_empty)
qed

text \<open>
  Claim C6 as stated fails: the text \<open>-5\<close> typed into the modernization-cost field is stored
  as \<open>-5\<close>, not as 0, and \<open>computeROI\<close> is run on it.
\<close>

theorem C6_input_coercion_counterexample:
  "modernization_cost (inputs (on_input_change Modernization_cost ''-5'' mounted_state)) = Fin (- 5)
   \<and> \<not> js_le (Fin 0) (modernization_cost (inputs (on_input_change Modernization_cost ''-5'' mounted_state)))
   \<and> results (on_input_change Modernization_cost ''-5'' mounted_state)
       = computeROI (inputs (on_input_change Modernization_cost ''-5'' mounted_state))"
  by (simp add: results_on_input_change parseFloat_neg5 js_or_def truthy_def)

section \<open>The two divisions by an input-dependent divisor\<close>

text \<open>
  Claim C7. The divisor of the ROI step is \<open>modernization_cost\<close> and that of the payback
  step is \<open>total_annual_savings\<close>; the three other divisions are by the literal 100 and
  give NaN only for a percentage that is NaN. Every operation is total, so no input raises
  an error. With a finite \<open>modernization_cost > 0\<close>
  and a \<open>total_annual_savings\<close> that is a number other than zero, neither quotient is NaN.
  With \<open>modernization_cost = 0\<close> the raw ROI is not finite, and with
  \<open>total_annual_savings = 0\<close> the payback quotient is not finite; with
  \<open>total_annual_savings < 0\<close> the payback quotient is negative or \<open>-0\<close>. Nothing guards
  these cases: with a zero \<open>modernization_cost\<close> the returned \<open>roi_percentage\<close> is NaN,
  \<open>Infinity\<close> or 50, and when both divisors are zero NaN is returned in both
  \<open>roi_percentage\<close> and \<open>payback_months\<close>.
\<close>

theorem C7_unguarded_divisions:
  "is_nan (js_div (downtime_reduction_percent i) (Fin 100)) = is_nan (downtime_reduction_percent i)
   \<and> is_nan (js_div (productivity_gain_percent i) (Fin 100)) = is_nan (productivity_gain_percent i)
   \<and> is_nan (js_div (deployment_increase_percent i) (Fin 100)) = is_nan (deployment_increase_percent i)
   \<and> (is_zero (modernization_cost i)
      \<longrightarrow> \<not> is_finite (roi i)
          \<and> (roi_percentage (computeROI i) = NaN \<or> roi_percentage (computeROI i) = PInf
               \<or> roi_percentage (computeROI i) = Fin 50))
   \<and> (is_zero (total_annual_savings i) \<longrightarrow> \<not> is_finite (payback_ratio i))
   \<and> (is_zero (modernization_cost i) \<and> is_zero (total_annual_savings i)
        \<longrightarrow> roi_percentage (computeROI i) = NaN \<and> payback_months (computeROI i) = NaN)
   \<and> (js_lt (Fin 0) (modernization_cost i) \<and> is_finite (modernization_cost i)
        \<and> js_lt (total_annual_savings i) (Fin 0)
        \<longrightarrow> sign_bit (payback_ratio i))
   \<and> (js_lt (Fin 0) (modernization_cost i) \<and> is_finite (modernization_cost i)
        \<and> \<not> is_nan (total_annual_savings i) \<and> \<not> is_zero (total_annual_savings i)
        \<longrightarrow> \<not> is_nan (roi i) \<and> \<not> is_nan (payback_ratio i))"
proof -
  have a: "\<not> is_finite (roi i)
           \<and> (roi_percentage (computeROI i) = NaN \<or> roi_percentage (computeROI i) = PInf
                \<or> roi_percentage (computeROI i) = Fin 50)"
    if "is_zero (modernization_cost i)"
  proof -
    have "js_div (net_benefit i) (modernization_cost i) \<in> {NaN, PInf, NInf}"
      using that by (auto simp: js_div_def signed_inf_def)
    then have "roi i \<in> {NaN, PInf, NInf}"
      by (auto simp: roi_def js_mul_def signed_inf_def)
    then show ?thesis
      by (auto simp: computeROI_fields js_round_def js_max_def)
  qed
  have b: "\<not> is_finite (payback_ratio i)" if "is_zero (total_annual_savings i)"
  proof -
    have "payback_ratio i \<in> {NaN, PInf, NInf}"
      using that by (auto simp: payback_ratio_def js_div_def signed_inf_def)
    then show ?thesis by auto
  qed
  have c: "roi_percentage (computeROI i) = NaN \<and> payback_months (computeROI i) = NaN"
    if "is_zero (modernization_cost i)" "is_zero (total_annual_savings i)"
  proof -
    have "is_zero (three_year_benefits i)"
      using that(2)
      by (cases "total_annual_savings i") (simp_all add: three_year_benefits_def js_mul_def signed_zero_def)
    moreover have "is_zero (js_neg (modernization_cost i))"
      using that(1) by (cases "modernization_cost i") (simp_all add: js_neg_def)
    ultimately have "is_zero (net_benefit i)"
      using that(1)
      by (cases "three_year_benefits i"; cases "js_neg (modernization_cost i)")
         (simp_all add: net_benefit_def js_sub_def js_add_def signed_zero_def)
    then have "roi i = NaN" using that(1) by (simp add: roi_def js_div_def js_mul_def)
    moreover have "payback_ratio i = NaN" using that by (simp add: payback_ratio_def js_div_def)
    ultimately show ?thesis
      by (simp add: computeROI_fields payback_months_local_def js_mul_def js_round_def
            js_max_def js_min_def)
  qed
  have d: "sign_bit (payback_ratio i)"
    if "js_lt (Fin 0) (modernization_cost i)" "is_finite (modernization_cost i)"
       "js_lt (total_annual_savings i) (Fin 0)"
    unfolding payback_ratio_def using that by (rule sign_bit_js_div)
  have e: "\<not> is_nan (roi i) \<and> \<not> is_nan (payback_ratio i)"
    if "js_lt (Fin 0) (modernization_cost i)" "is_finite (modernization_cost i)"
       "\<not> is_nan (total_annual_savings i)"
  proof -
    have nz: "\<not> is_zero (modernization_cost i)"
      using that(1) by (cases "modernization_cost i") auto
    have "\<not> is_nan (net_benefit i)" using that(2,3) by (rule net_benefit_not_nan)
    with that(2) nz have "\<not> is_nan (roi i)" by (rule roi_not_nan)
    moreover have "\<not> is_nan (payback_ratio i)" using that(2) nz that(3) by (rule payback_ratio_not_nan)
    ultimately show ?thesis by simp
  qed
  have p: "is_nan (js_div x (Fin 100)) = is_nan x" for x
    by (simp add: is_nan_js_div)
  from a b c d e show ?thesis unfolding p by blast
qed

theorem C7_unguarded_divisions_witness:
  "is_zero (modernization_cost (default_inputs\<lparr>modernization_cost := Fin 0\<rparr>))
   \<and> roi (default_inputs\<lparr>modernization_cost := Fin 0\<rparr>) = PInf
   \<and> roi_percentage (computeROI (default_inputs\<lparr>modernization_cost := Fin 0\<rparr>)) = PInf
   \<and> is_zero (modernization_cost (inputs zero_state))
   \<and> is_zero (total_annual_savings (inputs zero_state))
   \<and> \<not> is_finite (payback_ratio (inputs zero_state))
   \<and> roi_percentage (computeROI (inputs zero_state)) = NaN
   \<and> payback_months (computeROI (inputs zero_state)) = NaN
   \<and> js_lt (total_annual_savings (default_inputs\<lparr>projected_maintenance_cost := Fin 2000000\<rparr>)) (Fin 0)
   \<and> sign_bit (payback_ratio (default_inputs\<lparr>projected_maintenance_cost := Fin 2000000\<rparr>))
   \<and> js_lt (Fin 0) (modernization_cost default_inputs)
   \<and> \<not> is_zero (total_annual_savings default_inputs)
   \<and> \<not> is_nan (roi default_inputs) \<and> \<not> is_nan (payback_ratio default_inputs)"
proof -
  define free where "free = default_inputs\<lparr>modernization_cost := Fin 0\<rparr>"
  define rising where "rising = default_inputs\<lparr>projected_maintenance_cost := Fin 2000000\<rparr>"
  have f1: "is_zero (modernization_cost free)" by (simp add: free_def)
  have f2: "roi free = PInf" unfolding free_def by (rule free_roi)
  have f3: "roi_percentage (computeROI free) = PInf"
    by (simp add: computeROI_fields f2 js_round_def js_max_def)
  have z1: "is_zero (modernization_cost (inputs zero_state))" by (simp add: inputs_zero_state)
  have z2: "is_zero (total_annual_savings (inputs zero_state))"
    by (simp add: zero_total_annual_savings)
  have r1: "js_lt (Fin 0) (modernization_cost rising)" "is_finite (modernization_cost rising)"
    by (simp_all add: rising_def default_fields)
  have r2: "js_lt (total_annual_savings rising) (Fin 0)"
    by (simp add: rising_def rising_total_annual_savings)
  have d1: "js_lt (Fin 0) (modernization_cost default_inputs)"
    "is_finite (modernization_cost default_inputs)"
    by (simp_all add: default_fields)
  have d2: "\<not> is_nan (total_annual_savings default_inputs)"
    "\<not> is_zero (total_annual_savings default_inputs)"
    by (simp_all add: default_total_annual_savings)
  from C7_unguarded_divisions [of free] f1
  have "\<not> is_finite (roi free)" by blast
  from C7_unguarded_divisions [of "inputs zero_state"] z1 z2
  have z: "\<not> is_finite (payback_ratio (inputs zero_state))"
    "roi_percentage (computeROI (inputs zero_state)) = NaN"
    "payback_months (computeROI (inputs zero_state)) = NaN"
    by blast+
  from C7_unguarded_divisions [of rising] r1 r2
  have r: "sign_bit (payback_ratio rising)" by blast
  from C7_unguarded_divisions [of default_inputs] d1 d2
  have d: "\<not> is_nan (roi default_inputs)" "\<not> is_nan (payback_ratio default_inputs)"
    by blast+
  from f1 f2 f3 z1 z2 z r2 r d1(1) d2(2) d show ?thesis
    unfolding free_def rising_def by blast
qed

section \<open>Raising the current maintenance cost\<close>

lemma not_js_lt:
  assumes "is_nan x \<or> is_nan y \<or> js_le x y"
  shows "\<not> js_lt y x"
  using assms by (cases x; cases y) auto

lemma total_annual_savings_upd_current_maintenance_cost:
  "total_annual_savings (i\<lparr>current_maintenance_cost := v\<rparr>) =
     js_add (js_add (js_add (js_sub v (projected_maintenance_cost i)) (downtime_savings i))
               (productivity_value i))
       (deployment_efficiency_gain i)"
  by (simp add: total_annual_savings_def maintenance_savings_def)

lemma net_benefit_upd_current_maintenance_cost:
  "net_benefit (i\<lparr>current_maintenance_cost := v\<rparr>) =
     js_sub (js_mul (total_annual_savings (i\<lparr>current_maintenance_cost := v\<rparr>)) (Fin 3))
       (modernization_cost i)"
  by (simp add: net_benefit_def three_year_benefits_def)

text \<open>
  Claim C8, as amended. For every pair of input records that differ only in
  \<open>current_maintenance_cost\<close>, the second one's being greater than or equal to the first's,
  \<open>annual_savings\<close> and \<open>net_benefit_3_years\<close> of the second record are never less than
  those of the first: each is greater than or equal to the corresponding output of the
  first record unless one of the two is NaN.
\<close>

theorem C8_monotone_in_current_maintenance_cost:
  assumes "js_le v1 v2"
  shows "(is_nan (annual_savings (computeROI (i\<lparr>current_maintenance_cost := v1\<rparr>)))
          \<or> is_nan (annual_savings (computeROI (i\<lparr>current_maintenance_cost := v2\<rparr>)))
          \<or> js_le (annual_savings (computeROI (i\<lparr>current_maintenance_cost := v1\<rparr>)))
                   (annual_savings (computeROI (i\<lparr>current_maintenance_cost := v2\<rparr>))))
       \<and> (is_nan (net_benefit_3_years (computeROI (i\<lparr>current_maintenance_cost := v1\<rparr>)))
          \<or> is_nan (net_benefit_3_years (computeROI (i\<lparr>current_maintenance_cost := v2\<rparr>)))
          \<or> js_le (net_benefit_3_years (computeROI (i\<lparr>current_maintenance_cost := v1\<rparr>)))
                   (net_benefit_3_years (computeROI (i\<lparr>current_maintenance_cost := v2\<rparr>))))
       \<and> \<not> js_lt (annual_savings (computeROI (i\<lparr>current_maintenance_cost := v2\<rparr>)))
                  (annual_savings (computeROI (i\<lparr>current_maintenance_cost := v1\<rparr>)))
       \<and> \<not> js_lt (net_benefit_3_years (computeROI (i\<lparr>current_maintenance_cost := v2\<rparr>)))
                  (net_benefit_3_years (computeROI (i\<lparr>current_maintenance_cost := v1\<rparr>)))"
proof -
  define t1 where "t1 = total_annual_savings (i\<lparr>current_maintenance_cost := v1\<rparr>)"
  define t2 where "t2 = total_annual_savings (i\<lparr>current_maintenance_cost := v2\<rparr>)"
  define n1 where "n1 = net_benefit (i\<lparr>current_maintenance_cost := v1\<rparr>)"
  define n2 where "n2 = net_benefit (i\<lparr>current_maintenance_cost := v2\<rparr>)"
  have "is_nan v1 \<or> is_nan v2 \<or> js_le v1 v2" using assms by simp
  then have t: "is_nan t1 \<or> is_nan t2 \<or> js_le t1 t2"
    unfolding t1_def t2_def total_annual_savings_upd_current_maintenance_cost
    by (intro js_add_mono_left js_sub_mono_left)
  then have n: "is_nan n1 \<or> is_nan n2 \<or> js_le n1 n2"
    unfolding n1_def n2_def net_benefit_upd_current_maintenance_cost t1_def t2_def
    by (intro js_sub_mono_left js_mul_mono_left) simp_all
  from t n not_js_lt[OF t] not_js_lt[OF n] show ?thesis
    by (simp add: computeROI_fields t1_def t2_def n1_def n2_def)
qed

theorem C8_monotone_in_current_maintenance_cost_witness:
  "js_le (Fin 250000) (Fin 300000)
   \<and> annual_savings (computeROI (default_inputs\<lparr>current_maintenance_cost := Fin 250000\<rparr>))
       = Fin 1044000
   \<and> annual_savings (computeROI (default_inputs\<lparr>current_maintenance_cost := Fin 300000\<rparr>))
       = Fin 1094000
   \<and> js_le (annual_savings (computeROI (default_inputs\<lparr>current_maintenance_cost := Fin 250000\<rparr>)))
            (annual_savings (computeROI (default_inputs\<lparr>current_maintenance_cost := Fin 300000\<rparr>)))
   \<and> \<not> js_lt (net_benefit_3_years (computeROI (default_inputs\<lparr>current_maintenance_cost := Fin 300000\<rparr>)))
              (net_benefit_3_years (computeROI (default_inputs\<lparr>current_maintenance_cost := Fin 250000\<rparr>)))"
proof -
  have h: "js_le (Fin 250000) (Fin 300000)" by simp
  have same: "default_inputs\<lparr>current_maintenance_cost := Fin 250000\<rparr> = default_inputs"
    by (simp add: default_inputs_def)
  have a1: "annual_savings (computeROI (default_inputs\<lparr>current_maintenance_cost := Fin 250000\<rparr>))
              = Fin 1044000"
    unfolding same by (simp add: computeROI_fields default_total_annual_savings)
  have a2: "annual_savings (computeROI (default_inputs\<lparr>current_maintenance_cost := Fin 300000\<rparr>))
              = Fin 1094000"
    by (simp add: computeROI_fields raised_total_annual_savings)
  from C8_monotone_in_current_maintenance_cost [OF h, of default_inputs] h a1 a2
  show ?thesis by simp
qed

text \<open>
  Claim C8 as stated fails: with \<open>1e308\<close> hours of downtime and a reduction of 0 percent
  the annual savings are NaN whatever the current maintenance cost, and NaN is not greater
  than or equal to NaN.
\<close>

theorem C8_monotone_in_current_maintenance_cost_counterexample:
  "finite_inputs (inputs overflow_state)
   \<and> inputs (on_input_change Current_maintenance_cost ''300000'' overflow_state)
       = (inputs overflow_state)\<lparr>current_maintenance_cost := Fin 300000\<rparr>
   \<and> js_le (current_maintenance_cost (inputs overflow_state)) (Fin 300000)
   \<and> \<not> js_le (annual_savings (computeROI (inputs overflow_state)))
              (annual_savings (computeROI ((inputs overflow_state)\<lparr>current_maintenance_cost := Fin 300000\<rparr>)))
   \<and> \<not> js_le (net_benefit_3_years (computeROI (inputs overflow_state)))
              (net_benefit_3_years (computeROI ((inputs overflow_state)\<lparr>current_maintenance_cost := Fin 300000\<rparr>)))"
proof -
  have p: "parseFloat ''300000'' = Fin 300000" by (simp add: parse_simps)
  have 1: "inputs (on_input_change Current_maintenance_cost ''300000'' overflow_state)
             = (inputs overflow_state)\<lparr>current_maintenance_cost := Fin 300000\<rparr>"
    by (simp add: p js_or_def truthy_def)
  have 2: "js_le (current_maintenance_cost (inputs overflow_state)) (Fin 300000)"
    by (simp add: inputs_overflow_state default_fields)
  have 3: "annual_savings (computeROI (inputs overflow_state)) = NaN"
    "net_benefit_3_years (computeROI (inputs overflow_state)) = NaN"
    using nan_downtime_savings(1,2)[OF overflow_state_downtime_savings(1)]
    by (simp_all add: computeROI_fields)
  from finite_overflow_inputs 1 2 3 show ?thesis by simp
qed

section \<open>The results depend on the inputs alone\<close>



section \<open>A net annual loss\<close>

text \<open>
  Claim C10. For every input record with a finite \<open>modernization_cost > 0\<close> and
  \<open>total_annual_savings < 0\<close>, \<open>payback_months\<close> is 1: the quotient is negative (or \<open>-0\<close>),
  stays so when multiplied by 12 and rounded, and \<open>Math.max(1, _)\<close> lifts it to 1.
\<close>

theorem C10_net_loss_payback_is_one:
  assumes "js_lt (Fin 0) (modernization_cost i)" and "is_finite (modernization_cost i)"
    and "js_lt (total_annual_savings i) (Fin 0)"
  shows "payback_months (computeROI i) = Fin 1"
proof -
  have "sign_bit (payback_ratio i)"
    unfolding payback_ratio_def using assms by (rule sign_bit_js_div)
  then have "sign_bit (js_round (js_mul (payback_ratio i) (Fin 12)))"
    by (intro sign_bit_js_round sign_bit_js_mul_pos) simp_all
  then have "payback_months_local i = Fin 1"
    by (simp add: payback_months_local_def js_max_sign_bit)
  then show ?thesis by (simp add: computeROI_fields js_min_def)
qed

theorem C10_net_loss_payback_is_one_witness:
  "js_lt (Fin 0) (modernization_cost (default_inputs\<lparr>projected_maintenance_cost := Fin 2000000\<rparr>))
   \<and> is_finite (modernization_cost (default_inputs\<lparr>projected_maintenance_cost := Fin 2000000\<rparr>))
   \<and> total_annual_savings (default_inputs\<lparr>projected_maintenance_cost := Fin 2000000\<rparr>)
       = Fin (- 806000)
   \<and> payback_months (computeROI (default_inputs\<lparr>projected_maintenance_cost := Fin 2000000\<rparr>)) = Fin 1"
proof -
  define i where "i = default_inputs\<lparr>projected_maintenance_cost := Fin 2000000\<rparr>"
  have h1: "js_lt (Fin 0) (modernization_cost i)" by (simp add: i_def default_fields)
  have h2: "is_finite (modernization_cost i)" by (simp add: i_def default_fields)
  have t: "total_annual_savings i = Fin (- 806000)"
    unfolding i_def by (rule rising_total_annual_savings)
  then have h3: "js_lt (total_annual_savings i) (Fin 0)" by simp
  from C10_net_loss_payback_is_one [OF h1 h2 h3] h1 h2 t show ?thesis
    unfolding i_def by blast
qed

end
